theory Spec2Isabelle
  imports Complex_Main
begin

section \<open>Numbers of the data frames\<close>

text \<open>
  The three scripts compute on pandas columns of IEEE doubles. A cell is modelled as an
  \<open>fval\<close>: a finite value, carried as an exact rational, or one of the three special
  values that pandas produces instead of raising: \<open>inf\<close>, \<open>-inf\<close> and \<open>NaN\<close> (which is
  also pandas' marker of a missing cell). Finite arithmetic is exact in this model, so the
  rounding of doubles and the sign of zero are outside it; 0.125 is \<open>1/8\<close>, 0.028 is
  \<open>7/250\<close>, 1e-5 is \<open>1/100000\<close>.
\<close>

datatype fval = Fin rat | PInf | NInf | NaN

text \<open>True division of two finite cells: pandas never raises, a zero divisor gives
  \<open>inf\<close>, \<open>-inf\<close> or \<open>NaN\<close>.\<close>

definition div_ff :: "rat \<Rightarrow> rat \<Rightarrow> fval" where
  "div_ff a b =
     (if b \<noteq> 0 then Fin (a / b)
      else if 0 < a then PInf
      else if a < 0 then NInf
      else NaN)"

fun fdiv :: "fval \<Rightarrow> fval \<Rightarrow> fval" where
  "fdiv (Fin a) (Fin b) = div_ff a b"
| "fdiv NaN _ = NaN"
| "fdiv _ NaN = NaN"
| "fdiv (Fin a) _ = Fin 0"
| "fdiv PInf (Fin b) = (if b < 0 then NInf else PInf)"
| "fdiv NInf (Fin b) = (if b < 0 then PInf else NInf)"
| "fdiv _ _ = NaN"

fun fmul :: "fval \<Rightarrow> fval \<Rightarrow> fval" where
  "fmul (Fin a) (Fin b) = Fin (a * b)"
| "fmul NaN _ = NaN"
| "fmul _ NaN = NaN"
| "fmul (Fin a) PInf = (if 0 < a then PInf else if a < 0 then NInf else NaN)"
| "fmul (Fin a) NInf = (if 0 < a then NInf else if a < 0 then PInf else NaN)"
| "fmul PInf (Fin b) = (if 0 < b then PInf else if b < 0 then NInf else NaN)"
| "fmul NInf (Fin b) = (if 0 < b then NInf else if b < 0 then PInf else NaN)"
| "fmul PInf PInf = PInf"
| "fmul NInf NInf = PInf"
| "fmul PInf NInf = NInf"
| "fmul NInf PInf = NInf"

fun fadd :: "fval \<Rightarrow> fval \<Rightarrow> fval" where
  "fadd (Fin a) (Fin b) = Fin (a + b)"
| "fadd NaN _ = NaN"
| "fadd _ NaN = NaN"
| "fadd PInf NInf = NaN"
| "fadd NInf PInf = NaN"
| "fadd PInf _ = PInf"
| "fadd _ PInf = PInf"
| "fadd NInf _ = NInf"
| "fadd _ NInf = NInf"

fun fneg :: "fval \<Rightarrow> fval" where
  "fneg (Fin a) = Fin (- a)"
| "fneg PInf = NInf"
| "fneg NInf = PInf"
| "fneg NaN = NaN"

definition fsub :: "fval \<Rightarrow> fval \<Rightarrow> fval" where
  "fsub a b = fadd a (fneg b)"

fun fabs :: "fval \<Rightarrow> fval" where
  "fabs (Fin a) = Fin \<bar>a\<bar>"
| "fabs PInf = PInf"
| "fabs NInf = PInf"
| "fabs NaN = NaN"

text \<open>\<open>a < b\<close> on doubles: every comparison with \<open>NaN\<close> is false.\<close>

fun flt :: "fval \<Rightarrow> fval \<Rightarrow> bool" where
  "flt NaN _ = False"
| "flt _ NaN = False"
| "flt (Fin a) (Fin b) = (a < b)"
| "flt NInf NInf = False"
| "flt NInf _ = True"
| "flt _ NInf = False"
| "flt PInf _ = False"
| "flt (Fin a) PInf = True"

definition notna :: "fval \<Rightarrow> bool" where
  "notna v = (v \<noteq> NaN)"

text \<open>\<open>Series.sum()\<close> and \<open>groupby(...).sum()\<close>: missing cells are skipped and the sum of
  nothing is 0.\<close>

definition sum_skipna :: "fval list \<Rightarrow> fval" where
  "sum_skipna vs = foldl fadd (Fin 0) (filter notna vs)"

text \<open>\<open>Series.max()\<close>: missing cells are skipped; the maximum of nothing is \<open>NaN\<close>.\<close>

definition fmax2 :: "fval \<Rightarrow> fval \<Rightarrow> fval" where
  "fmax2 a b = (if flt a b then b else a)"

definition max_skipna :: "fval list \<Rightarrow> fval" where
  "max_skipna vs =
     (case filter notna vs of [] \<Rightarrow> NaN | v # rest \<Rightarrow> foldl fmax2 v rest)"

text \<open>\<open>np.isclose(a, 1, atol=0.001)\<close> with numpy's default \<open>rtol = 1e-05\<close>:
  \<open>|a - 1| \<le> atol + rtol * |1|\<close>; false for \<open>NaN\<close> and the infinities.\<close>

fun isclose_1 :: "fval \<Rightarrow> bool" where
  "isclose_1 (Fin a) = (\<bar>a - 1\<bar> \<le> 1 / 1000 + 1 / 100000 * \<bar>1\<bar>)"
| "isclose_1 _ = False"

text \<open>Exceptions the scripts can raise, as values.\<close>

datatype py_error = AssertionError string | ValueError string | ZeroDivisionError

section \<open>Generic data-frame operations\<close>

text \<open>A frame is the list of its rows. \<open>groupby(key)[col].sum()\<close> is given by the list of
  distinct keys (pandas sorts them; no property below depends on their order) and the
  sum of the column over the rows of each key.\<close>

definition group_keys :: "('r \<Rightarrow> 'k) \<Rightarrow> 'r list \<Rightarrow> 'k list" where
  "group_keys key rows = remdups (map key rows)"

definition group_sum :: "('r \<Rightarrow> 'k) \<Rightarrow> ('r \<Rightarrow> rat) \<Rightarrow> 'r list \<Rightarrow> 'k \<Rightarrow> rat" where
  "group_sum key col rows k = sum_list (map col (filter (\<lambda>r. key r = k) rows))"

definition group_sum_skipna :: "('r \<Rightarrow> 'k) \<Rightarrow> ('r \<Rightarrow> fval) \<Rightarrow> 'r list \<Rightarrow> 'k \<Rightarrow> fval" where
  "group_sum_skipna key col rows k = sum_skipna (map col (filter (\<lambda>r. key r = k) rows))"

definition group_size :: "('r \<Rightarrow> 'k) \<Rightarrow> 'r list \<Rightarrow> 'k \<Rightarrow> nat" where
  "group_size key rows k = length (filter (\<lambda>r. key r = k) rows)"

text \<open>\<open>str.startswith\<close>.\<close>

definition startswith :: "string \<Rightarrow> string \<Rightarrow> bool" where
  "startswith s p = (take (length p) s = p)"

section \<open>The age-group mapping (both projection scripts)\<close>

text \<open>\<open>map_single_year_to_custom_group\<close> of \<open>M.O.F-to-DA-Projections.py\<close>, on integer
  ages; the chained comparisons written out.\<close>

definition map_single_year_to_custom_group :: "int \<Rightarrow> string" where
  "map_single_year_to_custom_group age =
     (if 0 \<le> age \<and> age \<le> 17 then ''0-17''
      else if 18 \<le> age \<and> age \<le> 44 then ''18-44''
      else if 45 \<le> age \<and> age \<le> 64 then ''45-64''
      else if 65 \<le> age \<and> age \<le> 84 then ''65-84''
      else if age \<ge> 85 then ''85+''
      else ''Unknown'')"

text \<open>The function of the same name in \<open>MOF-Projections-to-DA-Dissagregation.py\<close>.\<close>

definition map_single_year_to_custom_group_2 :: "int \<Rightarrow> string" where
  "map_single_year_to_custom_group_2 age =
     (if 0 \<le> age \<and> age \<le> 17 then ''0-17''
      else if 18 \<le> age \<and> age \<le> 44 then ''18-44''
      else if 45 \<le> age \<and> age \<le> 64 then ''45-64''
      else if 65 \<le> age \<and> age \<le> 84 then ''65-84''
      else if age \<ge> 85 then ''85+''
      else ''Unknown'')"

section \<open>Script \<open>M.O.F-to-DA-Projections.py\<close>\<close>

text \<open>Sheet \<open>DA x Age x Sex\<close> after Step 2: one row per (DA, age group, sex). Step 3
  asserts that no key cell is missing, so the cells are plain values; \<open>DA_UID\<close> is the
  identifier as \<open>str(...)\<close> prints it.\<close>

record da_row =
  DA_UID :: string
  AgeGroup :: string
  Sex :: string
  Pop :: rat

text \<open>Sheet \<open>Projection_cleaned\<close>; \<open>Age_numeric\<close> is the column that \<open>safe_age_to_int\<close>
  adds in Step 5: the age when \<open>int(x)\<close> succeeds, \<open>None\<close> (\<open>NaN\<close>) when it raises.\<close>

record proj_row =
  YEAR :: int
  REGION_NAME :: string
  Age_numeric :: "int option"
  proj_Sex :: string
  proj_Pop :: rat

text \<open>The constant \<open>DA_BORDER_DAs\<close>, a dict of dicts; the functions below take the
  table as an argument and the script passes this one.\<close>

type_synonym border_table = "(string \<times> (string \<times> rat) list) list"

definition DA_BORDER_DAs :: border_table where
  "DA_BORDER_DAs =
     [(''35190009'', [(''Durham'', 125 / 1000), (''York'', 875 / 1000)]),
      (''35190965'', [(''Durham'', 28 / 1000), (''York'', 972 / 1000)])]"

text \<open>Step 4: \<open>W\<close> is renamed \<open>F\<close> in the projections; both frames keep the rows of sex
  \<open>M\<close> or \<open>F\<close>.\<close>

definition step4_proj :: "proj_row list \<Rightarrow> proj_row list" where
  "step4_proj df_proj =
     filter (\<lambda>r. proj_Sex r \<in> set [''M'', ''F''])
       (map (\<lambda>r. if proj_Sex r = ''W'' then r\<lparr>proj_Sex := ''F''\<rparr> else r) df_proj)"

definition step4_da :: "da_row list \<Rightarrow> da_row list" where
  "step4_da df_da = filter (\<lambda>r. Sex r \<in> set [''M'', ''F'']) df_da"

text \<open>Step 5: rows without a numeric age are dropped, the age is mapped to its group and
  \<open>Pop\<close> is summed by (year, region, sex, group). \<open>df_proj_agg\<close> is the list of its rows,
  key first; its keys are distinct.\<close>

type_synonym proj_key = "int \<times> string \<times> string \<times> string"

definition proj_keyed :: "proj_row list \<Rightarrow> (proj_key \<times> rat) list" where
  "proj_keyed df_proj =
     List.map_filter
       (\<lambda>r. case Age_numeric r of
               None \<Rightarrow> None
             | Some age \<Rightarrow>
                 Some ((YEAR r, REGION_NAME r, proj_Sex r, map_single_year_to_custom_group age),
                       proj_Pop r))
       df_proj"

definition step5_aggregate :: "proj_row list \<Rightarrow> (proj_key \<times> rat) list" where
  "step5_aggregate df_proj =
     (let rows = proj_keyed df_proj
      in map (\<lambda>k. (k, group_sum fst snd rows k)) (group_keys fst rows))"

text \<open>Step 8.\<close>

definition assign_region :: "border_table \<Rightarrow> string \<Rightarrow> string \<Rightarrow> string" where
  "assign_region border da_uid prefix =
     (if da_uid \<in> set (map fst border) then ''Border''
      else if prefix = ''3519'' then ''York''
      else if prefix = ''3518'' then ''Durham''
      else ''Unknown'')"

record da_region_row = da_row +
  Region :: string

definition step8_assign :: "border_table \<Rightarrow> da_row list \<Rightarrow> da_region_row list" where
  "step8_assign border df_da =
     map (\<lambda>r. \<lparr>DA_UID = DA_UID r, AgeGroup = AgeGroup r, Sex = Sex r, Pop = Pop r,
               Region = assign_region border (DA_UID r) (take 4 (DA_UID r))\<rparr>) df_da"

text \<open>Step 9: every \<open>Border\<close> row is replaced by one row per (region, proportion) entry of
  its DA. A row is \<open>Border\<close> only when its DA is a key of the table, so the lookup
  \<open>DA_BORDER_DAs[da_uid]\<close> cannot fail; the \<open>None\<close> branch is unreachable.\<close>

definition split_row :: "border_table \<Rightarrow> da_region_row \<Rightarrow> da_region_row list" where
  "split_row border row =
     (case map_of border (DA_UID row) of
        None \<Rightarrow> []
      | Some props \<Rightarrow>
          map (\<lambda>(region, prop). row\<lparr>Region := region, Pop := Pop row * prop\<rparr>) props)"

definition step9_split :: "border_table \<Rightarrow> da_region_row list \<Rightarrow> da_region_row list" where
  "step9_split border df_da =
     (let df_border = filter (\<lambda>r. Region r = ''Border'') df_da;
          df_border_split = concat (map (split_row border) df_border);
          df_da_no_border = filter (\<lambda>r. Region r \<noteq> ''Border'') df_da
      in df_da_no_border @ df_border_split)"

text \<open>Step 10: the two per-DA sums are subtracted on their common index (a DA missing
  from one of them gives \<open>NaN\<close>, which \<open>sum\<close> skips), and the total absolute difference
  must be below 1e-5.\<close>

definition pop_diff :: "da_region_row list \<Rightarrow> da_region_row list \<Rightarrow> rat" where
  "pop_diff df_da df_da_clean =
     sum_list
       (map (\<lambda>uid. \<bar>group_sum DA_UID Pop df_da uid - group_sum DA_UID Pop df_da_clean uid\<bar>)
          (filter (\<lambda>uid. uid \<in> set (group_keys DA_UID df_da_clean))
             (group_keys DA_UID df_da)))"

definition step10_ok :: "da_region_row list \<Rightarrow> da_region_row list \<Rightarrow> bool" where
  "step10_ok df_da df_da_clean = (pop_diff df_da df_da_clean < 1 / 100000)"

text \<open>Step 11: the population of each (Region, AgeGroup, Sex) and each row's share of it.\<close>

record da_share_row = da_region_row +
  RegionPop :: rat
  DA_Share :: fval

definition stratum :: "'a da_region_row_scheme \<Rightarrow> string \<times> string \<times> string" where
  "stratum r = (Region r, AgeGroup r, Sex r)"

definition step11_shares :: "da_region_row list \<Rightarrow> da_share_row list" where
  "step11_shares df_da_clean =
     map (\<lambda>r. let region_pop = group_sum stratum Pop df_da_clean (stratum r)
              in \<lparr>DA_UID = DA_UID r, AgeGroup = AgeGroup r, Sex = Sex r, Pop = Pop r,
                  Region = Region r, RegionPop = region_pop,
                  DA_Share = fdiv (Fin (Pop r)) (Fin region_pop)\<rparr>)
       df_da_clean"

text \<open>Step 12: the strata whose shares do not sum to 1 within tolerance are printed as a
  warning; the run goes on.\<close>

definition shares_sum :: "da_share_row list \<Rightarrow> string \<times> string \<times> string \<Rightarrow> fval" where
  "shares_sum df k = group_sum_skipna stratum DA_Share df k"

definition step12_warning :: "da_share_row list \<Rightarrow> (string \<times> string \<times> string) list" where
  "step12_warning df =
     filter (\<lambda>k. \<not> isclose_1 (shares_sum df k)) (group_keys stratum df)"

text \<open>Step 14: for every projection year the shares are left-merged with that year's
  projections on (region name, sex, age group) and multiplied by the matched regional
  population \<open>Pop_y\<close>. A row without a match keeps \<open>NaN\<close> in the right-hand columns.\<close>

definition region_map_proj :: "string \<Rightarrow> string option" where
  "region_map_proj region =
     map_of [(''York'', ''York Region Public Health Services''),
             (''Durham'', ''Durham Region Health Department'')] region"

record merged_row = da_share_row +
  Region_proj_name :: "string option"
  YEAR_JULY_1 :: "int option"
  Pop_y :: fval
  Projected_Pop :: fval

definition lookup_proj :: "(proj_key \<times> rat) list \<Rightarrow> int \<Rightarrow> string option \<Rightarrow> string \<Rightarrow> string
    \<Rightarrow> rat option" where
  "lookup_proj df_proj_agg year region_name sex age_group =
     (case region_name of
        None \<Rightarrow> None
      | Some rn \<Rightarrow> map_of df_proj_agg (year, rn, sex, age_group))"

definition merge_year :: "(proj_key \<times> rat) list \<Rightarrow> int \<Rightarrow> da_share_row list \<Rightarrow> merged_row list" where
  "merge_year df_proj_agg year df_da_clean =
     map (\<lambda>r. let rn = region_map_proj (Region r);
                  hit = lookup_proj df_proj_agg year rn (Sex r) (AgeGroup r);
                  pop_y = (case hit of None \<Rightarrow> NaN | Some p \<Rightarrow> Fin p)
              in \<lparr>DA_UID = DA_UID r, AgeGroup = AgeGroup r, Sex = Sex r, Pop = Pop r,
                  Region = Region r, RegionPop = RegionPop r, DA_Share = DA_Share r,
                  Region_proj_name = rn,
                  YEAR_JULY_1 = (case hit of None \<Rightarrow> None | Some p \<Rightarrow> Some year),
                  Pop_y = pop_y,
                  Projected_Pop = fmul (DA_Share r) pop_y\<rparr>)
       df_da_clean"

definition years_of :: "(proj_key \<times> rat) list \<Rightarrow> int list" where
  "years_of df_proj_agg = remdups (map (\<lambda>(k, p). fst k) df_proj_agg)"

definition step14_project :: "(proj_key \<times> rat) list \<Rightarrow> da_share_row list \<Rightarrow> merged_row list" where
  "step14_project df_proj_agg df_da_clean =
     concat (map (\<lambda>year. merge_year df_proj_agg year df_da_clean) (years_of df_proj_agg))"

text \<open>\<open>df_projected\<close> keeps the columns DA_UID, Sex, AgeGroup, Region, Region_proj_name,
  YEAR (JULY 1) and Projected_Pop of the merged rows.\<close>

record projected_row =
  out_DA_UID :: string
  out_Sex :: string
  out_AgeGroup :: string
  out_Region :: string
  out_Region_proj_name :: "string option"
  out_YEAR :: "int option"
  out_Projected_Pop :: fval

definition select_columns :: "merged_row \<Rightarrow> projected_row" where
  "select_columns m =
     \<lparr>out_DA_UID = DA_UID m, out_Sex = Sex m, out_AgeGroup = AgeGroup m, out_Region = Region m,
      out_Region_proj_name = Region_proj_name m, out_YEAR = YEAR_JULY_1 m,
      out_Projected_Pop = Projected_Pop m\<rparr>"

text \<open>Step 15: \<open>groupby\<close> drops the rows with a missing key, sums \<open>Projected_Pop\<close> per
  (year, region name, sex, age group), and the sums are compared with the regional
  projections; the largest absolute difference must be below 1e-2.\<close>

definition check_keyed :: "projected_row list \<Rightarrow> (proj_key \<times> fval) list" where
  "check_keyed df_projected =
     List.map_filter
       (\<lambda>r. case (out_YEAR r, out_Region_proj_name r) of
               (Some y, Some rn) \<Rightarrow> Some ((y, rn, out_Sex r, out_AgeGroup r), out_Projected_Pop r)
             | _ \<Rightarrow> None)
       df_projected"

definition proj_check :: "projected_row list \<Rightarrow> (proj_key \<times> rat) list
    \<Rightarrow> (proj_key \<times> fval \<times> fval \<times> fval) list" where
  "proj_check df_projected df_proj_agg =
     (let rows = check_keyed df_projected
      in map (\<lambda>k. let total = group_sum_skipna fst snd rows k;
                      pop = (case map_of df_proj_agg k of None \<Rightarrow> NaN | Some p \<Rightarrow> Fin p)
                  in (k, total, pop, fsub total pop))
           (group_keys fst rows))"

definition difference :: "proj_key \<times> fval \<times> fval \<times> fval \<Rightarrow> fval" where
  "difference c = snd (snd (snd c))"

definition max_diff :: "projected_row list \<Rightarrow> (proj_key \<times> rat) list \<Rightarrow> fval" where
  "max_diff df_projected df_proj_agg =
     max_skipna (map (\<lambda>c. fabs (difference c)) (proj_check df_projected df_proj_agg))"

definition step15_ok :: "projected_row list \<Rightarrow> (proj_key \<times> rat) list \<Rightarrow> bool" where
  "step15_ok df_projected df_proj_agg = flt (max_diff df_projected df_proj_agg) (Fin (1 / 100))"

text \<open>The script from Step 4 to the export: the exported frame, or the exception that
  stopped the run. Without any projection year the loop of Step 14 collects nothing and
  \<open>pd.concat\<close> of the empty list raises \<open>ValueError\<close>.\<close>

definition run_script1 :: "border_table \<Rightarrow> proj_row list \<Rightarrow> da_row list
    \<Rightarrow> py_error + projected_row list" where
  "run_script1 border df_proj0 df_da0 =
     (let df_proj_agg = step5_aggregate (step4_proj df_proj0);
          df_da = step8_assign border (step4_da df_da0);
          df_da_clean = step9_split border df_da
      in if \<not> step10_ok df_da df_da_clean
         then Inl (AssertionError ''Population total changed after splitting border DAs!'')
         else if years_of df_proj_agg = []
         then Inl (ValueError ''No objects to concatenate'')
         else
           let df_projected =
                 map select_columns (step14_project df_proj_agg (step11_shares df_da_clean))
           in if \<not> step15_ok df_projected df_proj_agg
              then Inl (AssertionError ''Large differences found - check calculations.'')
              else Inr df_projected)"

section \<open>Script \<open>MOF-Projections-to-DA-Dissagregation.py\<close>\<close>

text \<open>The DA sheet has the columns of \<open>da_row\<close>. Region by prefix of the identifier;
  \<open>None\<close> is outside the scope.\<close>

definition durham_prefix :: string where
  "durham_prefix = ''3518''"

definition york_prefix :: string where
  "york_prefix = ''3519''"

definition assign_region_by_da :: "string \<Rightarrow> string option" where
  "assign_region_by_da da_uid =
     (if startswith da_uid durham_prefix then Some ''Durham''
      else if startswith da_uid york_prefix then Some ''York''
      else None)"

record da2_region_row = da_row +
  da_REGION_NAME :: string

text \<open>Lines 48 and 115-118: the rows of sex \<open>M\<close> or \<open>F\<close> get their region; the rows
  without one are removed.\<close>

definition assign_regions_2 :: "da_row list \<Rightarrow> da2_region_row list" where
  "assign_regions_2 df_da =
     List.map_filter
       (\<lambda>r. case assign_region_by_da (DA_UID r) of
               None \<Rightarrow> None
             | Some region \<Rightarrow>
                 Some \<lparr>DA_UID = DA_UID r, AgeGroup = AgeGroup r, Sex = Sex r, Pop = Pop r,
                       da_REGION_NAME = region\<rparr>)
       (filter (\<lambda>r. Sex r \<in> set [''M'', ''F'']) df_da)"

text \<open>The fixed 2021 census table \<open>region_age_sex_2021\<close>.\<close>

definition region_age_sex_2021 :: "((string \<times> string \<times> string) \<times> rat) list" where
  "region_age_sex_2021 =
     [((''Durham'', ''0-17'', ''M''), 64230), ((''Durham'', ''0-17'', ''F''), 61275),
      ((''Durham'', ''18-44'', ''M''), 112090), ((''Durham'', ''18-44'', ''F''), 115440),
      ((''Durham'', ''45-64'', ''M''), 92015), ((''Durham'', ''45-64'', ''F''), 98190),
      ((''Durham'', ''65-84'', ''M''), 44930), ((''Durham'', ''65-84'', ''F''), 52505),
      ((''Durham'', ''85+'', ''M''), 5085), ((''Durham'', ''85+'', ''F''), 8560),
      ((''York'', ''0-17'', ''M''), 137415), ((''York'', ''0-17'', ''F''), 129640),
      ((''York'', ''18-44'', ''M''), 178575), ((''York'', ''18-44'', ''F''), 184805),
      ((''York'', ''45-64'', ''M''), 164490), ((''York'', ''45-64'', ''F''), 179230),
      ((''York'', ''65-84'', ''M''), 82165), ((''York'', ''65-84'', ''F''), 92990),
      ((''York'', ''85+'', ''M''), 9590), ((''York'', ''85+'', ''F''), 14435)]"

definition region_name_map :: "string \<Rightarrow> string option" where
  "region_name_map name =
     map_of [(''Durham Region Health Department'', ''Durham''),
             (''York Region Public Health Services'', ''York'')] name"

text \<open>\<open>Series.replace\<close> with the same dict: a value that is not a key stays.\<close>

definition replace_region_name :: "string \<Rightarrow> string" where
  "replace_region_name name = (case region_name_map name of None \<Rightarrow> name | Some short \<Rightarrow> short)"

text \<open>Lines 129-200: the baseline total of each (region, age group, sex) from the DA rows,
  the left merge with the census table, and each row's proportion of the census figure.\<close>

record da2_row = da2_region_row +
  Baseline_Region_Pop :: rat
  True_Region_Pop_2021 :: fval
  Prop_DA_in_Region_2021 :: fval

definition stratum_2 :: "'a da2_region_row_scheme \<Rightarrow> string \<times> string \<times> string" where
  "stratum_2 r = (da_REGION_NAME r, AgeGroup r, Sex r)"

definition proportions_2 :: "da2_region_row list \<Rightarrow> da2_row list" where
  "proportions_2 df_da =
     map (\<lambda>r. let name = replace_region_name (da_REGION_NAME r);
                  true_pop = (case map_of region_age_sex_2021 (name, AgeGroup r, Sex r) of
                                None \<Rightarrow> NaN | Some p \<Rightarrow> Fin p)
              in \<lparr>DA_UID = DA_UID r, AgeGroup = AgeGroup r, Sex = Sex r, Pop = Pop r,
                  da_REGION_NAME = name,
                  Baseline_Region_Pop = group_sum stratum_2 Pop df_da (stratum_2 r),
                  True_Region_Pop_2021 = true_pop,
                  Prop_DA_in_Region_2021 = fdiv (Fin (Pop r)) true_pop\<rparr>)
       df_da"

text \<open>\<open>df_proj\<close> as it stands after line 68, one row per cell. Lines 75-86 keep the five
  target age groups and sum \<open>Pop\<close> by (year, region, age group, sex).\<close>

record proj2_row =
  p2_Year :: int
  p2_REGION_NAME :: string
  p2_AgeGroup :: string
  p2_Sex :: string
  p2_Pop :: rat

definition target_age_groups :: "string list" where
  "target_age_groups = [''0-17'', ''18-44'', ''45-64'', ''65-84'', ''85+'']"

definition proj2_key :: "proj2_row \<Rightarrow> proj_key" where
  "proj2_key r = (p2_Year r, p2_REGION_NAME r, p2_AgeGroup r, p2_Sex r)"

definition aggregate_2 :: "proj2_row list \<Rightarrow> proj2_row list" where
  "aggregate_2 df_proj =
     (let rows = filter (\<lambda>r. p2_AgeGroup r \<in> set target_age_groups) df_proj
      in map (\<lambda>(y, rn, ag, sx).
                \<lparr>p2_Year = y, p2_REGION_NAME = rn, p2_AgeGroup = ag, p2_Sex = sx,
                 p2_Pop = group_sum proj2_key p2_Pop rows (y, rn, ag, sx)\<rparr>)
           (group_keys proj2_key rows))"

text \<open>Lines 216-265: the projections, left-merged with the DA proportions on (short
  region name, age group, sex): one row per matching DA row, or a single row with missing
  DA columns when no DA row matches; then \<open>Projected_Pop = Pop * Prop_DA_in_Region_2021\<close>.\<close>

record combined_row =
  c_Year :: int
  c_REGION_NAME :: string
  c_AgeGroup :: string
  c_Sex :: string
  c_Pop :: rat
  c_Region_Short :: "string option"
  c_DA_UID :: "string option"
  c_Prop_DA_in_Region_2021 :: fval
  c_Projected_Pop :: fval

definition combine_row :: "da2_row list \<Rightarrow> proj2_row \<Rightarrow> combined_row list" where
  "combine_row df_da p =
     (let short = region_name_map (p2_REGION_NAME p);
          hits = filter (\<lambda>d. short = Some (da_REGION_NAME d) \<and> AgeGroup d = p2_AgeGroup p
                              \<and> Sex d = p2_Sex p) df_da;
          row = (\<lambda>uid prop.
                   \<lparr>c_Year = p2_Year p, c_REGION_NAME = p2_REGION_NAME p,
                    c_AgeGroup = p2_AgeGroup p, c_Sex = p2_Sex p, c_Pop = p2_Pop p,
                    c_Region_Short = short, c_DA_UID = uid,
                    c_Prop_DA_in_Region_2021 = prop,
                    c_Projected_Pop = fmul (Fin (p2_Pop p)) prop\<rparr>)
      in if hits = [] then [row None NaN]
         else map (\<lambda>d. row (Some (DA_UID d)) (Prop_DA_in_Region_2021 d)) hits)"

definition combine_2 :: "proj2_row list \<Rightarrow> da2_row list \<Rightarrow> combined_row list" where
  "combine_2 df_proj df_da =
     concat (map (combine_row df_da)
       (filter (\<lambda>r. p2_AgeGroup r \<in> set target_age_groups) df_proj))"

text \<open>Line 278, \<open>region_age_sex_year_totals2\<close>: the sum of \<open>Projected_Pop\<close> of a (year,
  region, age group, sex). The script computes the table and compares it with nothing.\<close>

definition combined_key :: "combined_row \<Rightarrow> proj_key" where
  "combined_key c = (c_Year c, c_REGION_NAME c, c_AgeGroup c, c_Sex c)"

definition region_age_sex_year_totals2 :: "combined_row list \<Rightarrow> (proj_key \<times> fval) list" where
  "region_age_sex_year_totals2 df_combined =
     map (\<lambda>k. (k, group_sum_skipna combined_key c_Projected_Pop df_combined k))
       (group_keys combined_key df_combined)"

text \<open>The script from line 48 (DA rows) and line 75 (projections) to the export.\<close>

definition run_script2 :: "proj2_row list \<Rightarrow> da_row list \<Rightarrow> py_error + combined_row list" where
  "run_script2 df_proj0 df_da0 =
     (let df_proj = aggregate_2 df_proj0;
          df_da = proportions_2 (assign_regions_2 df_da0);
          df_combined = combine_2 df_proj df_da;
          totals = region_age_sex_year_totals2 df_combined
      in Inr df_combined)"

section \<open>Script \<open>3 Different Mapping Approaches.py\<close>\<close>

text \<open>A row of \<open>onmarg_df\<close>: the DA and its quintile in each of the four dimensions; a
  quintile cell can be missing. A dimension column \<open>dim_col\<close> is passed as the field
  selector.\<close>

record onmarg_row =
  DAUID :: string
  households_dwellings_q_DA21 :: "int option"
  material_resources_q_DA21 :: "int option"
  age_labourforce_q_DA21 :: "int option"
  racialized_NC_pop_q_DA21 :: "int option"

record onmarg_pop_row = onmarg_row +
  Sum_of_Pop :: rat

text \<open>A row of \<open>final_df\<close> (Steps 3 and 4 dropped the rows without population or without
  dominant FSA).\<close>

record final_row = onmarg_pop_row +
  DominantFSA :: string

text \<open>The rows of a frame that have a quintile in the dimension, keyed by (zone,
  quintile): \<open>groupby\<close> drops the rows whose key is missing.\<close>

definition by_quintile :: "('r \<Rightarrow> string) \<Rightarrow> ('r \<Rightarrow> int option) \<Rightarrow> 'r list
    \<Rightarrow> ((string \<times> int) \<times> 'r) list" where
  "by_quintile zone dim_col df =
     List.map_filter
       (\<lambda>r. case dim_col r of None \<Rightarrow> None | Some q \<Rightarrow> Some ((zone r, q), r)) df"

text \<open>Approach 1, the body of the loop of \<open>calculate_da_counts_approach\<close> for one
  dimension: DAs counted by (FSA, quintile), over the DAs of the FSA.\<close>

record da_analysis_row =
  a1_DominantFSA :: string
  a1_Quintile :: int
  DA_Count :: nat
  Total_DAs :: nat
  DA_Proportion :: fval
  DA_Percentage :: fval

definition da_analysis :: "(final_row \<Rightarrow> int option) \<Rightarrow> final_row list \<Rightarrow> da_analysis_row list" where
  "da_analysis dim_col df =
     (let rows = by_quintile DominantFSA dim_col df
      in map (\<lambda>(fsa, q).
                let da_count = group_size fst rows (fsa, q);
                    total_das = group_size DominantFSA df fsa;
                    proportion = fdiv (Fin (of_nat da_count)) (Fin (of_nat total_das))
                in \<lparr>a1_DominantFSA = fsa, a1_Quintile = q, DA_Count = da_count,
                    Total_DAs = total_das, DA_Proportion = proportion,
                    DA_Percentage = fmul proportion (Fin 100)\<rparr>)
           (group_keys fst rows))"

text \<open>The script's two lists have four entries each; \<open>results\<close> is the dict from
  dimension name to frame.\<close>

definition calculate_da_counts_approach ::
    "final_row list \<Rightarrow> (final_row \<Rightarrow> int option) list \<Rightarrow> string list
      \<Rightarrow> (string \<rightharpoonup> da_analysis_row list)" where
  "calculate_da_counts_approach df dimensions dimension_names =
     foldl (\<lambda>results (dim_col, dim_name). results(dim_name \<mapsto> da_analysis dim_col df))
       Map.empty (zip dimensions dimension_names)"

text \<open>Approach 2, the body of the loop of \<open>calculate_dominant_pop_approach\<close>: population
  summed by (FSA, quintile), as a percentage of the population of the FSA.\<close>

record pop_analysis_row =
  a2_DominantFSA :: string
  a2_Quintile :: int
  a2_Sum_of_Pop :: rat
  a2_Total_Population :: rat
  a2_Pop_Percentage :: fval

definition pop_analysis :: "(final_row \<Rightarrow> int option) \<Rightarrow> final_row list \<Rightarrow> pop_analysis_row list" where
  "pop_analysis dim_col df =
     (let rows = by_quintile DominantFSA dim_col df
      in map (\<lambda>(fsa, q).
                let pop = group_sum fst (\<lambda>kr. Sum_of_Pop (snd kr)) rows (fsa, q);
                    total = group_sum DominantFSA Sum_of_Pop df fsa
                in \<lparr>a2_DominantFSA = fsa, a2_Quintile = q, a2_Sum_of_Pop = pop,
                    a2_Total_Population = total,
                    a2_Pop_Percentage = fmul (fdiv (Fin pop) (Fin total)) (Fin 100)\<rparr>)
           (group_keys fst rows))"

definition calculate_dominant_pop_approach ::
    "final_row list \<Rightarrow> (final_row \<Rightarrow> int option) list \<Rightarrow> string list
      \<Rightarrow> (string \<rightharpoonup> pop_analysis_row list)" where
  "calculate_dominant_pop_approach df dimensions dimension_names =
     foldl (\<lambda>results (dim_col, dim_name). results(dim_name \<mapsto> pop_analysis dim_col df))
       Map.empty (zip dimensions dimension_names)"

text \<open>The validation of Approach 2 sums the percentages of each FSA.\<close>

definition pct_sums_2 :: "pop_analysis_row list \<Rightarrow> string \<Rightarrow> fval" where
  "pct_sums_2 result fsa = group_sum_skipna a2_DominantFSA a2_Pop_Percentage result fsa"

text \<open>Approach 3, \<open>calculate_proportional_approach\<close>: the two inner merges, the population
  of every (DA, FSA) overlap, and the same percentages by (FSA, quintile).\<close>

record pop_row =
  DA_UID_pop :: string
  pop_Sum_of_Pop :: rat

record da_fsa_row =
  DAuid :: string
  FSA :: string
  Proportion :: rat
  fsa_DominantFSA :: string

record prop_row = onmarg_pop_row +
  p_FSA :: string
  p_Proportion :: rat
  Allocated_Population :: rat

definition prop_frame :: "onmarg_row list \<Rightarrow> pop_row list \<Rightarrow> da_fsa_row list \<Rightarrow> prop_row list" where
  "prop_frame onmarg_df pop_df da_fsa_df =
     concat (map (\<lambda>r.
       concat (map (\<lambda>p.
         map (\<lambda>f. \<lparr>DAUID = DAUID r,
                    households_dwellings_q_DA21 = households_dwellings_q_DA21 r,
                    material_resources_q_DA21 = material_resources_q_DA21 r,
                    age_labourforce_q_DA21 = age_labourforce_q_DA21 r,
                    racialized_NC_pop_q_DA21 = racialized_NC_pop_q_DA21 r,
                    Sum_of_Pop = pop_Sum_of_Pop p,
                    p_FSA = FSA f, p_Proportion = Proportion f,
                    Allocated_Population = pop_Sum_of_Pop p * Proportion f\<rparr>)
           (filter (\<lambda>f. DAuid f = DAUID r) da_fsa_df))
         (filter (\<lambda>p. DA_UID_pop p = DAUID r) pop_df)))
       onmarg_df)"

record alloc_analysis_row =
  a3_FSA :: string
  a3_Quintile :: int
  a3_Allocated_Population :: rat
  a3_Total_Population :: rat
  a3_Pop_Percentage :: fval

definition alloc_analysis :: "(prop_row \<Rightarrow> int option) \<Rightarrow> prop_row list \<Rightarrow> alloc_analysis_row list" where
  "alloc_analysis dim_col prop_df =
     (let rows = by_quintile p_FSA dim_col prop_df
      in map (\<lambda>(fsa, q).
                let pop = group_sum fst (\<lambda>kr. Allocated_Population (snd kr)) rows (fsa, q);
                    total = group_sum p_FSA Allocated_Population prop_df fsa
                in \<lparr>a3_FSA = fsa, a3_Quintile = q, a3_Allocated_Population = pop,
                    a3_Total_Population = total,
                    a3_Pop_Percentage = fmul (fdiv (Fin pop) (Fin total)) (Fin 100)\<rparr>)
           (group_keys fst rows))"

definition calculate_proportional_approach ::
    "onmarg_row list \<Rightarrow> pop_row list \<Rightarrow> da_fsa_row list \<Rightarrow> (prop_row \<Rightarrow> int option) list
      \<Rightarrow> string list \<Rightarrow> (string \<rightharpoonup> alloc_analysis_row list) \<times> prop_row list" where
  "calculate_proportional_approach onmarg_df pop_df da_fsa_df dimensions dimension_names =
     (let prop_df = prop_frame onmarg_df pop_df da_fsa_df
      in (foldl (\<lambda>results (dim_col, dim_name). results(dim_name \<mapsto> alloc_analysis dim_col prop_df))
            Map.empty (zip dimensions dimension_names),
          prop_df))"

definition pct_sums_3 :: "alloc_analysis_row list \<Rightarrow> string \<Rightarrow> fval" where
  "pct_sums_3 result fsa = group_sum_skipna a3_FSA a3_Pop_Percentage result fsa"

section \<open>Example frames\<close>

text \<open>The two units of the specification's example: base values 60 and 40 in one
  (region, age group, sex), and a projection of 500 for 2030.\<close>

definition example_da :: "da_row list" where
  "example_da =
     [\<lparr>DA_UID = ''35190001'', AgeGroup = ''0-17'', Sex = ''M'', Pop = 60\<rparr>,
      \<lparr>DA_UID = ''35190002'', AgeGroup = ''0-17'', Sex = ''M'', Pop = 40\<rparr>]"

definition example_proj :: "proj_row list" where
  "example_proj =
     [\<lparr>YEAR = 2030, REGION_NAME = ''York Region Public Health Services'',
       Age_numeric = Some 10, proj_Sex = ''M'', proj_Pop = 500\<rparr>]"

text \<open>A frame with one of the two border DAs, and a table whose weights do not sum to 1.\<close>

definition example_border_da :: "da_row list" where
  "example_border_da =
     [\<lparr>DA_UID = ''35190001'', AgeGroup = ''0-17'', Sex = ''M'', Pop = 60\<rparr>,
      \<lparr>DA_UID = ''35190009'', AgeGroup = ''0-17'', Sex = ''M'', Pop = 80\<rparr>]"

definition bad_border :: border_table where
  "bad_border = [(''35190009'', [(''Durham'', 1 / 2), (''York'', 1 / 4)])]"

text \<open>A table whose weights miss 1 by 1e-7: the DA of 80 people changes by 8e-6.\<close>

definition near_border :: border_table where
  "near_border = [(''35190009'', [(''Durham'', 1 / 2), (''York'', 1 / 2 - 1 / 10000000)])]"

text \<open>What the first script exports for the example, its aggregated projections and
  its DA rows after Step 9.\<close>

definition example_projected :: "projected_row list" where
  "example_projected =
     [\<lparr>out_DA_UID = ''35190001'', out_Sex = ''M'', out_AgeGroup = ''0-17'', out_Region = ''York'',
       out_Region_proj_name = Some ''York Region Public Health Services'',
       out_YEAR = Some 2030, out_Projected_Pop = Fin 300\<rparr>,
      \<lparr>out_DA_UID = ''35190002'', out_Sex = ''M'', out_AgeGroup = ''0-17'', out_Region = ''York'',
       out_Region_proj_name = Some ''York Region Public Health Services'',
       out_YEAR = Some 2030, out_Projected_Pop = Fin 200\<rparr>]"

definition example_agg :: "(proj_key \<times> rat) list" where
  "example_agg = [((2030, ''York Region Public Health Services'', ''M'', ''0-17''), 500)]"

definition example_clean :: "da_region_row list" where
  "example_clean =
     [\<lparr>DA_UID = ''35190001'', AgeGroup = ''0-17'', Sex = ''M'', Pop = 60, Region = ''York''\<rparr>,
      \<lparr>DA_UID = ''35190002'', AgeGroup = ''0-17'', Sex = ''M'', Pop = 40, Region = ''York''\<rparr>]"

text \<open>One Durham DA of the second script, and one DA without population.\<close>

definition example_da2 :: "da_row list" where
  "example_da2 = [\<lparr>DA_UID = ''35180001'', AgeGroup = ''0-17'', Sex = ''M'', Pop = 100\<rparr>]"

definition example_zero_da :: "da_row list" where
  "example_zero_da = [\<lparr>DA_UID = ''35190001'', AgeGroup = ''0-17'', Sex = ''M'', Pop = 0\<rparr>]"

text \<open>The DA without population after Step 9; two DAs of which the second has no
  projection for its age group; a projection for the Durham DA of the second script and
  what that script exports for it.\<close>

definition example_zero_clean :: "da_region_row list" where
  "example_zero_clean =
     [\<lparr>DA_UID = ''35190001'', AgeGroup = ''0-17'', Sex = ''M'', Pop = 0, Region = ''York''\<rparr>]"

definition example_unmatched_da :: "da_row list" where
  "example_unmatched_da =
     [\<lparr>DA_UID = ''35190001'', AgeGroup = ''0-17'', Sex = ''M'', Pop = 60\<rparr>,
      \<lparr>DA_UID = ''35190002'', AgeGroup = ''85+'', Sex = ''M'', Pop = 40\<rparr>]"

definition example_unmatched_projected :: "projected_row list" where
  "example_unmatched_projected =
     [\<lparr>out_DA_UID = ''35190001'', out_Sex = ''M'', out_AgeGroup = ''0-17'', out_Region = ''York'',
       out_Region_proj_name = Some ''York Region Public Health Services'',
       out_YEAR = Some 2030, out_Projected_Pop = Fin 500\<rparr>,
      \<lparr>out_DA_UID = ''35190002'', out_Sex = ''M'', out_AgeGroup = ''85+'', out_Region = ''York'',
       out_Region_proj_name = Some ''York Region Public Health Services'',
       out_YEAR = None, out_Projected_Pop = NaN\<rparr>]"

definition example_proj2 :: "proj2_row list" where
  "example_proj2 =
     [\<lparr>p2_Year = 2030, p2_REGION_NAME = ''Durham Region Health Department'',
       p2_AgeGroup = ''0-17'', p2_Sex = ''M'', p2_Pop = 64230\<rparr>]"

definition example_combined :: "combined_row list" where
  "example_combined =
     [\<lparr>c_Year = 2030, c_REGION_NAME = ''Durham Region Health Department'', c_AgeGroup = ''0-17'',
       c_Sex = ''M'', c_Pop = 64230, c_Region_Short = Some ''Durham'',
       c_DA_UID = Some ''35180001'', c_Prop_DA_in_Region_2021 = Fin (100 / 64230),
       c_Projected_Pop = Fin 100\<rparr>]"

text \<open>Frames for the three approaches: an FSA with a DA whose quintile is missing and an
  FSA without population; an FSA whose two quintile groups have the same mean population;
  an FSA with one DA in each of two quintiles.\<close>

definition onmarg_example :: "string \<Rightarrow> rat \<Rightarrow> string \<Rightarrow> int option \<Rightarrow> final_row" where
  "onmarg_example uid pop fsa q =
     \<lparr>DAUID = uid, households_dwellings_q_DA21 = q, material_resources_q_DA21 = q,
      age_labourforce_q_DA21 = q, racialized_NC_pop_q_DA21 = q,
      Sum_of_Pop = pop, DominantFSA = fsa\<rparr>"

definition example_final_df :: "final_row list" where
  "example_final_df =
     [onmarg_example ''35190001'' 100 ''L1A'' (Some 1),
      onmarg_example ''35190002'' 100 ''L1A'' None,
      onmarg_example ''35190003'' 0 ''L2B'' (Some 1)]"

definition example_equal_means_df :: "final_row list" where
  "example_equal_means_df =
     [onmarg_example ''35190001'' 10 ''L1A'' (Some 1),
      onmarg_example ''35190002'' 30 ''L1A'' (Some 1),
      onmarg_example ''35190003'' 20 ''L1A'' (Some 2),
      onmarg_example ''35190004'' 20 ''L1A'' (Some 2)]"

definition example_unequal_df :: "final_row list" where
  "example_unequal_df =
     [onmarg_example ''35190001'' 10 ''L1A'' (Some 1),
      onmarg_example ''35190002'' 30 ''L1A'' (Some 2)]"

text \<open>Inputs of Approach 3: the first DA lies in two FSAs.\<close>

definition example_onmarg_df :: "onmarg_row list" where
  "example_onmarg_df =
     [\<lparr>DAUID = ''35190001'', households_dwellings_q_DA21 = Some 1,
       material_resources_q_DA21 = Some 1, age_labourforce_q_DA21 = Some 1,
       racialized_NC_pop_q_DA21 = Some 1\<rparr>,
      \<lparr>DAUID = ''35190002'', households_dwellings_q_DA21 = Some 2,
       material_resources_q_DA21 = Some 2, age_labourforce_q_DA21 = Some 2,
       racialized_NC_pop_q_DA21 = Some 2\<rparr>]"

definition example_pop_df :: "pop_row list" where
  "example_pop_df =
     [\<lparr>DA_UID_pop = ''35190001'', pop_Sum_of_Pop = 100\<rparr>,
      \<lparr>DA_UID_pop = ''35190002'', pop_Sum_of_Pop = 60\<rparr>]"

definition example_da_fsa_df :: "da_fsa_row list" where
  "example_da_fsa_df =
     [\<lparr>DAuid = ''35190001'', FSA = ''L1A'', Proportion = 1 / 4, fsa_DominantFSA = ''L2B''\<rparr>,
      \<lparr>DAuid = ''35190001'', FSA = ''L2B'', Proportion = 3 / 4, fsa_DominantFSA = ''L2B''\<rparr>,
      \<lparr>DAuid = ''35190002'', FSA = ''L1A'', Proportion = 1, fsa_DominantFSA = ''L1A''\<rparr>]"

section \<open>Properties\<close>

subsection \<open>Sums over groups\<close>

lemma foldl_fadd_Fin: "foldl fadd (Fin a) (map Fin xs) = Fin (a + sum_list xs)"
  by (induction xs arbitrary: a) (simp_all add: add.assoc)

lemma sum_skipna_Fin: "sum_skipna (map Fin xs) = Fin (sum_list xs)"
  by (simp add: sum_skipna_def notna_def foldl_fadd_Fin o_def)

lemma sum_list_filter_split:
  fixes f :: "'a \<Rightarrow> rat"
  shows "sum_list (map f (filter P xs)) + sum_list (map f (filter (\<lambda>x. \<not> P x) xs)) = sum_list (map f xs)"
  by (induction xs) simp_all

lemma sum_list_delta_notin:
  fixes v :: rat
  shows "k \<notin> set ks \<Longrightarrow> sum_list (map (\<lambda>j. if k = j then v else 0) ks) = 0"
  by (induction ks) auto

lemma sum_list_delta:
  fixes v :: rat
  assumes "distinct ks" "k \<in> set ks"
  shows "sum_list (map (\<lambda>j. if k = j then v else 0) ks) = v"
  using assms by (induction ks) (auto simp: sum_list_delta_notin)

lemma group_sum_Cons:
  "group_sum key col (r # rows) k = (if key r = k then col r else 0) + group_sum key col rows k"
  by (simp add: group_sum_def)

lemma sum_group_sums:
  assumes "distinct ks" "set (map key rows) \<subseteq> set ks"
  shows "sum_list (map (group_sum key col rows) ks) = sum_list (map col rows)"
  using assms
proof (induction rows)
  case Nil
  then show ?case by (simp add: group_sum_def)
next
  case (Cons r rows)
  have "sum_list (map (group_sum key col (r # rows)) ks)
      = sum_list (map (\<lambda>k. (if key r = k then col r else 0) + group_sum key col rows k) ks)"
    by (rule arg_cong [where f = sum_list]) (simp add: group_sum_Cons)
  also have "\<dots> = sum_list (map (\<lambda>k. if key r = k then col r else 0) ks) + sum_list (map (group_sum key col rows) ks)"
    by (simp add: sum_list_addf)
  also have "sum_list (map (\<lambda>k. if key r = k then col r else 0) ks) = col r"
    using Cons.prems by (intro sum_list_delta) auto
  finally show ?case using Cons by simp
qed

lemma sum_group_keys:
  "sum_list (map (group_sum key col rows) (group_keys key rows)) = sum_list (map col rows)"
  by (rule sum_group_sums) (simp_all add: group_keys_def)

subsection \<open>The split of border DAs\<close>

lemma split_row_sum:
  assumes "map_of border (DA_UID r) = Some props" "sum_list (map snd props) = 1"
  shows "sum_list (map Pop (filter (\<lambda>x. DA_UID x = uid) (split_row border r)))
       = (if DA_UID r = uid then Pop r else 0)"
proof -
  have "sum_list (map (\<lambda>x. Pop r * snd x) props) = Pop r * sum_list (map snd props)"
    by (simp add: sum_list_const_mult)
  then show ?thesis using assms
    by (simp add: split_row_def filter_map o_def case_prod_unfold)
qed

lemma concat_split_sum:
  assumes "\<forall>r \<in> set rs. \<exists>props. map_of border (DA_UID r) = Some props \<and> sum_list (map snd props) = 1"
  shows "sum_list (map Pop (filter (\<lambda>x. DA_UID x = uid) (concat (map (split_row border) rs))))
       = sum_list (map Pop (filter (\<lambda>x. DA_UID x = uid) rs))"
  using assms
proof (induction rs)
  case Nil
  then show ?case by simp
next
  case (Cons r rs)
  then obtain props where "map_of border (DA_UID r) = Some props" "sum_list (map snd props) = 1"
    by auto
  then show ?case using Cons by (simp add: split_row_sum)
qed

lemma border_rows_in_table:
  assumes "r \<in> set (step8_assign border df)" "Region r = ''Border''"
  shows "DA_UID r \<in> set (map fst border)"
  using assms by (auto simp: step8_assign_def assign_region_def split: if_splits)

lemma split_keeps_totals:
  assumes "\<forall>(uid, props) \<in> set border. sum_list (map snd props) = 1"
  shows "group_sum DA_UID Pop (step9_split border (step8_assign border df)) uid
       = group_sum DA_UID Pop (step8_assign border df) uid"
proof -
  let ?df = "step8_assign border df"
  let ?B = "filter (\<lambda>r. Region r = ''Border'') ?df"
  have "\<forall>r \<in> set ?B. \<exists>props. map_of border (DA_UID r) = Some props \<and> sum_list (map snd props) = 1"
  proof
    fix r assume "r \<in> set ?B"
    then have "DA_UID r \<in> set (map fst border)" using border_rows_in_table by auto
    then obtain props where p: "map_of border (DA_UID r) = Some props"
      by (metis map_of_eq_None_iff not_None_eq set_map)
    then have "(DA_UID r, props) \<in> set border" by (rule map_of_SomeD)
    with assms p show "\<exists>props. map_of border (DA_UID r) = Some props \<and> sum_list (map snd props) = 1"
      by auto
  qed
  then have "sum_list (map Pop (filter (\<lambda>x. DA_UID x = uid) (concat (map (split_row border) ?B))))
       = sum_list (map Pop (filter (\<lambda>x. DA_UID x = uid) ?B))"
    by (rule concat_split_sum)
  moreover have "sum_list (map Pop (filter (\<lambda>x. DA_UID x = uid) (filter (\<lambda>r. Region r = ''Border'') ?df)))
     + sum_list (map Pop (filter (\<lambda>x. DA_UID x = uid) (filter (\<lambda>r. Region r \<noteq> ''Border'') ?df)))
     = sum_list (map Pop (filter (\<lambda>x. DA_UID x = uid) ?df))"
    using sum_list_filter_split [of Pop "\<lambda>r. Region r = ''Border''" "filter (\<lambda>x. DA_UID x = uid) ?df"]
    by (simp add: conj_commute)
  ultimately show ?thesis
    by (simp add: group_sum_def step9_split_def Let_def)
qed

lemma pop_diff_zero:
  assumes "\<forall>(uid, props) \<in> set border. sum_list (map snd props) = 1"
  shows "pop_diff (step8_assign border df) (step9_split border (step8_assign border df)) = 0"
  using assms by (simp add: pop_diff_def split_keeps_totals sum_list_0)

lemma member_le_sum_list_nonneg:
  fixes xs :: "rat list"
  assumes "\<forall>y \<in> set xs. 0 \<le> y" "x \<in> set xs"
  shows "x \<le> sum_list xs"
  using assms
proof (induction xs)
  case Nil
  then show ?case by simp
next
  case (Cons a xs)
  have nn: "0 \<le> sum_list xs" using Cons.prems(1) by (intro sum_list_nonneg) simp
  show ?case
  proof (cases "x = a")
    case True
    with nn show ?thesis by simp
  next
    case False
    with Cons.prems have "x \<in> set xs" "\<forall>y \<in> set xs. 0 \<le> y" by simp_all
    then have "x \<le> sum_list xs" using Cons.IH by blast
    moreover have "0 \<le> a" using Cons.prems(1) by simp
    ultimately show ?thesis by simp
  qed
qed

lemma split_row_uid:
  "x \<in> set (split_row border r) \<Longrightarrow> DA_UID x = DA_UID r"
  by (auto simp: split_row_def split: option.splits)

lemma split_uids_subset:
  "set (map DA_UID (step9_split border df)) \<subseteq> set (map DA_UID df)"
  by (auto simp: step9_split_def Let_def dest: split_row_uid)

lemma split_row_nonempty:
  assumes "\<forall>(uid, props) \<in> set border. props \<noteq> []" "DA_UID r \<in> set (map fst border)"
  shows "split_row border r \<noteq> []"
proof -
  from assms(2) obtain props where p: "map_of border (DA_UID r) = Some props"
    by (metis map_of_eq_None_iff not_None_eq set_map)
  then have "(DA_UID r, props) \<in> set border" by (rule map_of_SomeD)
  with assms(1) have "props \<noteq> []" by auto
  with p show ?thesis by (simp add: split_row_def)
qed

lemma split_uids_superset:
  assumes "\<forall>(uid, props) \<in> set border. props \<noteq> []"
  shows "set (map DA_UID (step8_assign border df))
       \<subseteq> set (map DA_UID (step9_split border (step8_assign border df)))"
proof
  fix uid assume "uid \<in> set (map DA_UID (step8_assign border df))"
  then obtain r where r: "r \<in> set (step8_assign border df)" "DA_UID r = uid" by auto
  show "uid \<in> set (map DA_UID (step9_split border (step8_assign border df)))"
  proof (cases "Region r = ''Border''")
    case False
    with r show ?thesis by (auto simp: step9_split_def Let_def intro!: image_eqI [where x = r])
  next
    case True
    with r(1) have "DA_UID r \<in> set (map fst border)" by (rule border_rows_in_table)
    with assms have "split_row border r \<noteq> []" by (rule split_row_nonempty)
    then obtain x where x: "x \<in> set (split_row border r)" by (cases "split_row border r") auto
    then have "DA_UID x = uid" using r(2) split_row_uid by fastforce
    moreover have "x \<in> set (step9_split border (step8_assign border df))"
      using x r(1) True by (auto simp: step9_split_def Let_def)
    ultimately show ?thesis by (auto intro!: image_eqI [where x = x])
  qed
qed

lemma group_sum_absent:
  "k \<notin> set (map key rows) \<Longrightarrow> group_sum key col rows k = 0"
proof -
  assume "k \<notin> set (map key rows)"
  then have "filter (\<lambda>r. key r = k) rows = []" by (auto simp: filter_empty_conv)
  then show ?thesis by (simp add: group_sum_def)
qed

lemma da_change_fails_check:
  assumes ne: "\<forall>(uid, props) \<in> set border. props \<noteq> []"
    and big: "1 / 100000 \<le> \<bar>group_sum DA_UID Pop (step8_assign border df) uid
               - group_sum DA_UID Pop (step9_split border (step8_assign border df)) uid\<bar>"
  shows "\<not> step10_ok (step8_assign border df) (step9_split border (step8_assign border df))"
proof -
  let ?o = "step8_assign border df"
  let ?n = "step9_split border ?o"
  let ?d = "\<lambda>uid. \<bar>group_sum DA_UID Pop ?o uid - group_sum DA_UID Pop ?n uid\<bar>"
  have in_o: "uid \<in> set (map DA_UID ?o)"
  proof (rule ccontr)
    assume a: "uid \<notin> set (map DA_UID ?o)"
    then have b: "uid \<notin> set (map DA_UID ?n)" using split_uids_subset [of border ?o] by blast
    have "group_sum DA_UID Pop ?o uid = 0" using a by (rule group_sum_absent)
    moreover have "group_sum DA_UID Pop ?n uid = 0" using b by (rule group_sum_absent)
    ultimately have "?d uid = 0" by simp
    with big show False by simp
  qed
  have "filter (\<lambda>uid. uid \<in> set (group_keys DA_UID ?n)) (group_keys DA_UID ?o) = group_keys DA_UID ?o"
    using split_uids_superset [OF ne, of df] by (auto simp: group_keys_def filter_id_conv)
  then have pd: "pop_diff ?o ?n = sum_list (map ?d (group_keys DA_UID ?o))"
    by (simp only: pop_diff_def)
  have "?d uid \<in> set (map ?d (group_keys DA_UID ?o))"
    using in_o by (simp add: group_keys_def)
  moreover have "\<forall>y \<in> set (map ?d (group_keys DA_UID ?o)). 0 \<le> y" by auto
  ultimately have "?d uid \<le> sum_list (map ?d (group_keys DA_UID ?o))"
    by (intro member_le_sum_list_nonneg)
  with big pd show ?thesis by (simp add: step10_ok_def)
qed

text \<open>
  C2. Step 9 replaces every border row by one fragment per (region, proportion) entry of
  its DA, with \<open>Pop\<close> multiplied by the proportion. For every table whose proportions
  sum to 1 for each DA, the sum of \<open>Pop\<close> of every DA is unchanged (exactly, hence within
  1e-5) and the assertion of Step 10 passes. For every table that gives each border DA at
  least one fragment, a change of 1e-5 or more in the sum of any one DA fails the
  assertion of Step 10 and stops the run with its error, so a run that delivers a frame
  has kept every DA's sum within 1e-5; a change of 8e-6 passes.
\<close>

theorem split_preserves_population:
  "((\<forall>(uid, props) \<in> set border. sum_list (map snd props) = 1) \<longrightarrow>
      (\<forall>uid. group_sum DA_UID Pop (step9_split border (step8_assign border df)) uid
            = group_sum DA_UID Pop (step8_assign border df) uid)
      \<and> step10_ok (step8_assign border df) (step9_split border (step8_assign border df)))
   \<and> (\<forall>props. map_of border (DA_UID r) = Some props \<longrightarrow>
        map Region (split_row border r) = map fst props
        \<and> map Pop (split_row border r) = map (\<lambda>(region, prop). Pop r * prop) props
        \<and> map DA_UID (split_row border r) = map (\<lambda>p. DA_UID r) props)
   \<and> (\<not> step10_ok (step8_assign border (step4_da df0))
            (step9_split border (step8_assign border (step4_da df0))) \<longrightarrow>
        run_script1 border df_proj df0
          = Inl (AssertionError ''Population total changed after splitting border DAs!''))
   \<and> (\<forall>out. run_script1 border df_proj df0 = Inr out \<longrightarrow>
        pop_diff (step8_assign border (step4_da df0))
          (step9_split border (step8_assign border (step4_da df0))) < 1 / 100000)
   \<and> ((\<forall>(uid, props) \<in> set border. props \<noteq> [])
        \<and> (\<exists>uid. 1 / 100000
              \<le> \<bar>group_sum DA_UID Pop (step8_assign border (step4_da df0)) uid
                  - group_sum DA_UID Pop
                      (step9_split border (step8_assign border (step4_da df0))) uid\<bar>) \<longrightarrow>
        run_script1 border df_proj df0
          = Inl (AssertionError ''Population total changed after splitting border DAs!''))
   \<and> ((\<forall>(uid, props) \<in> set border. props \<noteq> []) \<longrightarrow>
        (\<forall>out. run_script1 border df_proj df0 = Inr out \<longrightarrow>
           (\<forall>uid. \<bar>group_sum DA_UID Pop (step8_assign border (step4_da df0)) uid
                   - group_sum DA_UID Pop
                       (step9_split border (step8_assign border (step4_da df0))) uid\<bar>
                 < 1 / 100000)))
   \<and> group_sum DA_UID Pop
        (step9_split near_border (step8_assign near_border (step4_da example_border_da)))
        ''35190009'' = 80 - 1 / 125000
   \<and> step10_ok (step8_assign near_border (step4_da example_border_da))
        (step9_split near_border (step8_assign near_border (step4_da example_border_da)))"
proof (intro conjI impI allI)
  fix uid
  assume "\<forall>(uid, props) \<in> set border. sum_list (map snd props) = 1"
  then show "group_sum DA_UID Pop (step9_split border (step8_assign border df)) uid
            = group_sum DA_UID Pop (step8_assign border df) uid"
    by (rule split_keeps_totals)
next
  assume "\<forall>(uid, props) \<in> set border. sum_list (map snd props) = 1"
  then show "step10_ok (step8_assign border df) (step9_split border (step8_assign border df))"
    by (simp add: step10_ok_def pop_diff_zero)
next
  fix props assume "map_of border (DA_UID r) = Some props"
  then show "map Region (split_row border r) = map fst props"
    by (simp add: split_row_def o_def case_prod_unfold)
next
  fix props assume "map_of border (DA_UID r) = Some props"
  then show "map Pop (split_row border r) = map (\<lambda>(region, prop). Pop r * prop) props"
    by (simp add: split_row_def o_def case_prod_unfold)
next
  fix props assume "map_of border (DA_UID r) = Some props"
  then show "map DA_UID (split_row border r) = map (\<lambda>p. DA_UID r) props"
    by (simp add: split_row_def o_def case_prod_unfold)
next
  assume "\<not> step10_ok (step8_assign border (step4_da df0))
            (step9_split border (step8_assign border (step4_da df0)))"
  then show "run_script1 border df_proj df0
          = Inl (AssertionError ''Population total changed after splitting border DAs!'')"
    by (simp add: run_script1_def Let_def)
next
  fix out assume "run_script1 border df_proj df0 = Inr out"
  then show "pop_diff (step8_assign border (step4_da df0))
          (step9_split border (step8_assign border (step4_da df0))) < 1 / 100000"
    by (auto simp: run_script1_def Let_def step10_ok_def split: if_splits)
next
  assume "(\<forall>(uid, props) \<in> set border. props \<noteq> [])
        \<and> (\<exists>uid. 1 / 100000
              \<le> \<bar>group_sum DA_UID Pop (step8_assign border (step4_da df0)) uid
                  - group_sum DA_UID Pop
                      (step9_split border (step8_assign border (step4_da df0))) uid\<bar>)"
  then obtain uid where ne: "\<forall>(uid, props) \<in> set border. props \<noteq> []"
    and big: "1 / 100000
              \<le> \<bar>group_sum DA_UID Pop (step8_assign border (step4_da df0)) uid
                  - group_sum DA_UID Pop
                      (step9_split border (step8_assign border (step4_da df0))) uid\<bar>"
    by blast
  from ne big have "\<not> step10_ok (step8_assign border (step4_da df0))
            (step9_split border (step8_assign border (step4_da df0)))"
    by (rule da_change_fails_check)
  then show "run_script1 border df_proj df0
          = Inl (AssertionError ''Population total changed after splitting border DAs!'')"
    by (simp add: run_script1_def Let_def)
next
  fix out uid
  assume ne: "\<forall>(uid, props) \<in> set border. props \<noteq> []"
    and run: "run_script1 border df_proj df0 = Inr out"
  show "\<bar>group_sum DA_UID Pop (step8_assign border (step4_da df0)) uid
                   - group_sum DA_UID Pop
                       (step9_split border (step8_assign border (step4_da df0))) uid\<bar>
                 < 1 / 100000"
  proof (rule ccontr)
    assume "\<not> \<bar>group_sum DA_UID Pop (step8_assign border (step4_da df0)) uid
                   - group_sum DA_UID Pop
                       (step9_split border (step8_assign border (step4_da df0))) uid\<bar>
                 < 1 / 100000"
    then have "1 / 100000
              \<le> \<bar>group_sum DA_UID Pop (step8_assign border (step4_da df0)) uid
                  - group_sum DA_UID Pop
                      (step9_split border (step8_assign border (step4_da df0))) uid\<bar>"
      by simp
    with ne have "\<not> step10_ok (step8_assign border (step4_da df0))
            (step9_split border (step8_assign border (step4_da df0)))"
      by (rule da_change_fails_check)
    with run show False by (simp add: run_script1_def Let_def)
  qed
next
  show "group_sum DA_UID Pop
        (step9_split near_border (step8_assign near_border (step4_da example_border_da)))
        ''35190009'' = 80 - 1 / 125000"
    by code_simp
next
  show "step10_ok (step8_assign near_border (step4_da example_border_da))
        (step9_split near_border (step8_assign near_border (step4_da example_border_da)))"
    by code_simp
qed

theorem split_preserves_population_witness:
  "sum_list (map snd [(''Durham'', 125 / 1000 :: rat), (''York'', 875 / 1000)]) = 1
   \<and> sum_list (map snd [(''Durham'', 28 / 1000 :: rat), (''York'', 972 / 1000)]) = 1
   \<and> group_sum DA_UID Pop (step8_assign DA_BORDER_DAs example_border_da) ''35190009'' = 80
   \<and> group_sum DA_UID Pop
        (step9_split DA_BORDER_DAs (step8_assign DA_BORDER_DAs example_border_da)) ''35190009'' = 80
   \<and> map Pop (step9_split DA_BORDER_DAs (step8_assign DA_BORDER_DAs example_border_da)) = [60, 10, 70]
   \<and> step10_ok (step8_assign DA_BORDER_DAs example_border_da)
        (step9_split DA_BORDER_DAs (step8_assign DA_BORDER_DAs example_border_da))
   \<and> \<not> step10_ok (step8_assign bad_border (step4_da example_border_da))
        (step9_split bad_border (step8_assign bad_border (step4_da example_border_da)))
   \<and> group_sum DA_UID Pop (step8_assign bad_border (step4_da example_border_da)) ''35190009'' = 80
   \<and> group_sum DA_UID Pop
        (step9_split bad_border (step8_assign bad_border (step4_da example_border_da)))
        ''35190009'' = 60
   \<and> run_script1 bad_border example_proj example_border_da
        = Inl (AssertionError ''Population total changed after splitting border DAs!'')"
proof -
  let ?o = "step8_assign bad_border (step4_da example_border_da)"
  let ?n = "step9_split bad_border ?o"
  have w: "\<forall>(uid, props) \<in> set DA_BORDER_DAs. sum_list (map snd props) = 1"
    by (simp add: DA_BORDER_DAs_def)
  have bad: "\<not> step10_ok ?o ?n"
    by code_simp
  have g: "group_sum DA_UID Pop (step8_assign DA_BORDER_DAs example_border_da) ''35190009'' = 80"
    by code_simp
  have m: "map Pop (step9_split DA_BORDER_DAs (step8_assign DA_BORDER_DAs example_border_da)) = [60, 10, 70]"
    by code_simp
  have go: "group_sum DA_UID Pop ?o ''35190009'' = 80" by code_simp
  have gn: "group_sum DA_UID Pop ?n ''35190009'' = 60" by code_simp
  have ne: "\<forall>(uid, props) \<in> set bad_border. props \<noteq> []"
    by (simp add: bad_border_def)
  have "1 / 100000 \<le> \<bar>group_sum DA_UID Pop ?o ''35190009'' - group_sum DA_UID Pop ?n ''35190009''\<bar>"
    unfolding go gn by simp
  then have ex: "\<exists>uid. 1 / 100000 \<le> \<bar>group_sum DA_UID Pop ?o uid - group_sum DA_UID Pop ?n uid\<bar>"
    by (rule exI)
  note inst = split_preserves_population [where border = bad_border and df0 = example_border_da
        and df_proj = example_proj]
  have halt: "run_script1 bad_border example_proj example_border_da
        = Inl (AssertionError ''Population total changed after splitting border DAs!'')"
    by (rule inst [THEN conjunct2, THEN conjunct2, THEN conjunct2, THEN conjunct2, THEN conjunct1,
          THEN mp, OF conjI [OF ne ex]])
  have keep: "(\<forall>uid. group_sum DA_UID Pop
                 (step9_split DA_BORDER_DAs (step8_assign DA_BORDER_DAs example_border_da)) uid
               = group_sum DA_UID Pop (step8_assign DA_BORDER_DAs example_border_da) uid)
      \<and> step10_ok (step8_assign DA_BORDER_DAs example_border_da)
          (step9_split DA_BORDER_DAs (step8_assign DA_BORDER_DAs example_border_da))"
    by (rule split_preserves_population [where border = DA_BORDER_DAs and df = example_border_da,
          THEN conjunct1, THEN mp, OF w])
  then have k1: "group_sum DA_UID Pop
        (step9_split DA_BORDER_DAs (step8_assign DA_BORDER_DAs example_border_da)) ''35190009'' = 80"
    using g by simp
  have s1: "sum_list (map snd [(''Durham'', 125 / 1000 :: rat), (''York'', 875 / 1000)]) = 1" by simp
  have s2: "sum_list (map snd [(''Durham'', 28 / 1000 :: rat), (''York'', 972 / 1000)]) = 1" by simp
  show ?thesis
    by (intro conjI s1 s2 g k1 m keep [THEN conjunct2] bad go gn halt)
qed


text \<open>
  C10. For every non-negative integer age the mapping returns one of the five labels, the
  one whose range holds the age (the ranges are disjoint and cover the non-negative
  integers); \<open>Unknown\<close> is returned exactly for the negative ages; and the two scripts
  define the same function.
\<close>

theorem age_group_mapping_total:
  "(0 \<le> age \<longrightarrow>
      map_single_year_to_custom_group age \<in> {''0-17'', ''18-44'', ''45-64'', ''65-84'', ''85+''})
   \<and> (map_single_year_to_custom_group age = ''0-17'' \<longleftrightarrow> 0 \<le> age \<and> age \<le> 17)
   \<and> (map_single_year_to_custom_group age = ''18-44'' \<longleftrightarrow> 18 \<le> age \<and> age \<le> 44)
   \<and> (map_single_year_to_custom_group age = ''45-64'' \<longleftrightarrow> 45 \<le> age \<and> age \<le> 64)
   \<and> (map_single_year_to_custom_group age = ''65-84'' \<longleftrightarrow> 65 \<le> age \<and> age \<le> 84)
   \<and> (map_single_year_to_custom_group age = ''85+'' \<longleftrightarrow> 85 \<le> age)
   \<and> (map_single_year_to_custom_group age = ''Unknown'' \<longleftrightarrow> age < 0)
   \<and> map_single_year_to_custom_group_2 age = map_single_year_to_custom_group age"
  unfolding map_single_year_to_custom_group_def map_single_year_to_custom_group_2_def
  by auto

theorem age_group_mapping_total_witness:
  "(0::int) \<le> 44 \<and> map_single_year_to_custom_group 44 = ''18-44''
   \<and> map_single_year_to_custom_group_2 44 = ''18-44''"
  using age_group_mapping_total [of 44] by simp

subsection \<open>Allocation\<close>

lemma merge_year_row:
  assumes "m \<in> set (merge_year agg year (step11_shares clean))"
  shows "DA_Share m = fdiv (Fin (Pop m)) (Fin (group_sum stratum Pop clean (stratum m)))
       \<and> Projected_Pop m = fmul (DA_Share m) (Pop_y m)
       \<and> Region_proj_name m = region_map_proj (Region m)
       \<and> Pop_y m = (case lookup_proj agg year (Region_proj_name m) (Sex m) (AgeGroup m) of
                      None \<Rightarrow> NaN | Some t \<Rightarrow> Fin t)
       \<and> YEAR_JULY_1 m = (case lookup_proj agg year (Region_proj_name m) (Sex m) (AgeGroup m) of
                      None \<Rightarrow> None | Some t \<Rightarrow> Some year)"
  using assms by (auto simp: merge_year_def step11_shares_def Let_def stratum_def)

lemma merge_year_projected:
  "map (\<lambda>m. (DA_UID m, AgeGroup m, Sex m, Region m, DA_Share m, Projected_Pop m))
      (merge_year agg year (step11_shares clean))
     = map (\<lambda>r. (DA_UID r, AgeGroup r, Sex r, Region r,
                  fdiv (Fin (Pop r)) (Fin (group_sum stratum Pop clean (stratum r))),
                  fmul (fdiv (Fin (Pop r)) (Fin (group_sum stratum Pop clean (stratum r))))
                    (case lookup_proj agg year (region_map_proj (Region r)) (Sex r) (AgeGroup r) of
                       None \<Rightarrow> NaN | Some t \<Rightarrow> Fin t)))
         clean"
  by (simp add: merge_year_def step11_shares_def Let_def o_def)

lemma combine_row_cols:
  "map (\<lambda>c. (c_Year c, c_REGION_NAME c, c_AgeGroup c, c_Sex c, c_Pop c, c_DA_UID c,
              c_Prop_DA_in_Region_2021 c, c_Projected_Pop c)) (combine_row df_da p)
     = (if filter (\<lambda>d. region_name_map (p2_REGION_NAME p) = Some (da_REGION_NAME d)
                         \<and> AgeGroup d = p2_AgeGroup p \<and> Sex d = p2_Sex p) df_da = []
        then [(p2_Year p, p2_REGION_NAME p, p2_AgeGroup p, p2_Sex p, p2_Pop p, None, NaN, NaN)]
        else map (\<lambda>d. (p2_Year p, p2_REGION_NAME p, p2_AgeGroup p, p2_Sex p, p2_Pop p,
                        Some (DA_UID d), Prop_DA_in_Region_2021 d,
                        fmul (Fin (p2_Pop p)) (Prop_DA_in_Region_2021 d)))
               (filter (\<lambda>d. region_name_map (p2_REGION_NAME p) = Some (da_REGION_NAME d)
                             \<and> AgeGroup d = p2_AgeGroup p \<and> Sex d = p2_Sex p) df_da))"
  by (simp add: combine_row_def Let_def o_def)

lemma combine_row_hit:
  assumes "d \<in> set df_da" "region_name_map (p2_REGION_NAME p) = Some (da_REGION_NAME d)"
    "AgeGroup d = p2_AgeGroup p" "Sex d = p2_Sex p"
  shows "\<exists>c \<in> set (combine_row df_da p).
           c_DA_UID c = Some (DA_UID d)
           \<and> c_Prop_DA_in_Region_2021 c = Prop_DA_in_Region_2021 d
           \<and> c_Projected_Pop c = fmul (Fin (p2_Pop p)) (Prop_DA_in_Region_2021 d)"
proof -
  let ?hits = "filter (\<lambda>d. region_name_map (p2_REGION_NAME p) = Some (da_REGION_NAME d)
                         \<and> AgeGroup d = p2_AgeGroup p \<and> Sex d = p2_Sex p) df_da"
  from assms have d: "d \<in> set ?hits" by simp
  have ne: "?hits \<noteq> []"
  proof
    assume "?hits = []"
    with d show False by (simp only: list.set empty_iff)
  qed
  let ?row = "\<lambda>d. \<lparr>c_Year = p2_Year p, c_REGION_NAME = p2_REGION_NAME p,
                    c_AgeGroup = p2_AgeGroup p, c_Sex = p2_Sex p, c_Pop = p2_Pop p,
                    c_Region_Short = region_name_map (p2_REGION_NAME p),
                    c_DA_UID = Some (DA_UID d),
                    c_Prop_DA_in_Region_2021 = Prop_DA_in_Region_2021 d,
                    c_Projected_Pop = fmul (Fin (p2_Pop p)) (Prop_DA_in_Region_2021 d)\<rparr>"
  have "combine_row df_da p = map ?row ?hits"
    using ne by (simp add: combine_row_def Let_def)
  with d have "?row d \<in> set (combine_row df_da p)" by simp
  then show ?thesis by (rule bexI [rotated]) simp
qed

lemma combine_row_src:
  assumes "c \<in> set (combine_row df_da p)" "c_DA_UID c = Some uid"
  shows "\<exists>d \<in> set df_da. DA_UID d = uid
           \<and> region_name_map (p2_REGION_NAME p) = Some (da_REGION_NAME d)
           \<and> AgeGroup d = p2_AgeGroup p \<and> Sex d = p2_Sex p
           \<and> c_Prop_DA_in_Region_2021 c = Prop_DA_in_Region_2021 d
           \<and> c_Projected_Pop c = fmul (Fin (p2_Pop p)) (Prop_DA_in_Region_2021 d)"
  using assms by (auto simp: combine_row_def Let_def split: if_splits)

lemma proportions_2_prop:
  assumes "d \<in> set (proportions_2 (assign_regions_2 df_da0))"
  shows "Prop_DA_in_Region_2021 d
           = fdiv (Fin (Pop d))
               (case map_of region_age_sex_2021 (da_REGION_NAME d, AgeGroup d, Sex d) of
                  None \<Rightarrow> NaN | Some T \<Rightarrow> Fin T)"
  using assms by (auto simp: proportions_2_def Let_def)

text \<open>
  C1. In the first script every row of the DA frame gives one merged row per year, which
  carries the share \<open>Pop / RegionPop\<close> of its own stratum, and where that stratum has a
  projection for the year the allocated value is the share times that projection. In
  the second script every projection row is joined with exactly the DA rows of its
  (region, age group, sex); each joined row carries that DA's proportion (its population
  over the census figure of the stratum) and the allocated value is the projection times
  that proportion. For the two units with base values 60 and 40 and a projection of 500,
  the shares are 0.6 and 0.4, the first script exports 300 and 200, and the difference
  found by the final check is 0.
\<close>

theorem allocated_is_share_times_target:
  "(\<forall>m \<in> set (merge_year agg year (step11_shares clean)).
       DA_Share m = fdiv (Fin (Pop m)) (Fin (group_sum stratum Pop clean (stratum m)))
     \<and> (\<forall>rn t. region_map_proj (Region m) = Some rn
                \<and> map_of agg (year, rn, Sex m, AgeGroup m) = Some t
           \<longrightarrow> Projected_Pop m = fmul (DA_Share m) (Fin t)))
   \<and> map (\<lambda>m. (DA_UID m, AgeGroup m, Sex m, Region m, DA_Share m, Projected_Pop m))
        (merge_year agg year (step11_shares clean))
      = map (\<lambda>r. (DA_UID r, AgeGroup r, Sex r, Region r,
                   fdiv (Fin (Pop r)) (Fin (group_sum stratum Pop clean (stratum r))),
                   fmul (fdiv (Fin (Pop r)) (Fin (group_sum stratum Pop clean (stratum r))))
                     (case lookup_proj agg year (region_map_proj (Region r)) (Sex r) (AgeGroup r) of
                        None \<Rightarrow> NaN | Some t \<Rightarrow> Fin t)))
          clean
   \<and> (\<forall>c \<in> set (combine_row df_da p).
         c_Projected_Pop c = fmul (Fin (c_Pop c)) (c_Prop_DA_in_Region_2021 c) \<and> c_Pop c = p2_Pop p)
   \<and> map (\<lambda>c. (c_Year c, c_REGION_NAME c, c_AgeGroup c, c_Sex c, c_Pop c, c_DA_UID c,
                c_Prop_DA_in_Region_2021 c, c_Projected_Pop c)) (combine_row df_da p)
      = (if filter (\<lambda>d. region_name_map (p2_REGION_NAME p) = Some (da_REGION_NAME d)
                          \<and> AgeGroup d = p2_AgeGroup p \<and> Sex d = p2_Sex p) df_da = []
         then [(p2_Year p, p2_REGION_NAME p, p2_AgeGroup p, p2_Sex p, p2_Pop p, None, NaN, NaN)]
         else map (\<lambda>d. (p2_Year p, p2_REGION_NAME p, p2_AgeGroup p, p2_Sex p, p2_Pop p,
                         Some (DA_UID d), Prop_DA_in_Region_2021 d,
                         fmul (Fin (p2_Pop p)) (Prop_DA_in_Region_2021 d)))
                (filter (\<lambda>d. region_name_map (p2_REGION_NAME p) = Some (da_REGION_NAME d)
                              \<and> AgeGroup d = p2_AgeGroup p \<and> Sex d = p2_Sex p) df_da))
   \<and> (\<forall>d \<in> set df_da.
         region_name_map (p2_REGION_NAME p) = Some (da_REGION_NAME d)
         \<and> AgeGroup d = p2_AgeGroup p \<and> Sex d = p2_Sex p \<longrightarrow>
         (\<exists>c \<in> set (combine_row df_da p).
            c_DA_UID c = Some (DA_UID d)
            \<and> c_Prop_DA_in_Region_2021 c = Prop_DA_in_Region_2021 d
            \<and> c_Projected_Pop c = fmul (Fin (p2_Pop p)) (Prop_DA_in_Region_2021 d)))
   \<and> (\<forall>c \<in> set (combine_row df_da p). \<forall>uid. c_DA_UID c = Some uid \<longrightarrow>
         (\<exists>d \<in> set df_da. DA_UID d = uid
            \<and> region_name_map (p2_REGION_NAME p) = Some (da_REGION_NAME d)
            \<and> AgeGroup d = p2_AgeGroup p \<and> Sex d = p2_Sex p
            \<and> c_Prop_DA_in_Region_2021 c = Prop_DA_in_Region_2021 d
            \<and> c_Projected_Pop c = fmul (Fin (p2_Pop p)) (Prop_DA_in_Region_2021 d)))
   \<and> (\<forall>d \<in> set (proportions_2 (assign_regions_2 df_da0)).
         Prop_DA_in_Region_2021 d
           = fdiv (Fin (Pop d))
               (case map_of region_age_sex_2021 (da_REGION_NAME d, AgeGroup d, Sex d) of
                  None \<Rightarrow> NaN | Some T \<Rightarrow> Fin T))
   \<and> step5_aggregate (step4_proj example_proj) = example_agg
   \<and> map (\<lambda>r. (DA_UID r, RegionPop r, DA_Share r))
        (step11_shares (step9_split DA_BORDER_DAs (step8_assign DA_BORDER_DAs (step4_da example_da))))
      = [(''35190001'', 100, Fin (6 / 10)), (''35190002'', 100, Fin (4 / 10))]
   \<and> run_script1 DA_BORDER_DAs example_proj example_da = Inr example_projected
   \<and> map out_Projected_Pop example_projected = [Fin 300, Fin 200]
   \<and> map difference (proj_check example_projected example_agg) = [Fin 0]
   \<and> run_script2 example_proj2 example_da2 = Inr example_combined
   \<and> map (\<lambda>c. (c_DA_UID c, c_Pop c, c_Prop_DA_in_Region_2021 c, c_Projected_Pop c))
        example_combined
      = [(Some ''35180001'', 64230, Fin (100 / 64230), Fin 100)]"
proof (intro conjI ballI allI impI)
  fix m assume "m \<in> set (merge_year agg year (step11_shares clean))"
  then show "DA_Share m = fdiv (Fin (Pop m)) (Fin (group_sum stratum Pop clean (stratum m)))"
    by (simp add: merge_year_row)
next
  fix m rn t
  assume m: "m \<in> set (merge_year agg year (step11_shares clean))"
    and "region_map_proj (Region m) = Some rn \<and> map_of agg (year, rn, Sex m, AgeGroup m) = Some t"
  then have "lookup_proj agg year (Region_proj_name m) (Sex m) (AgeGroup m) = Some t"
    using merge_year_row [OF m] by (simp add: lookup_proj_def)
  then show "Projected_Pop m = fmul (DA_Share m) (Fin t)"
    using merge_year_row [OF m] by simp
next
  show "map (\<lambda>m. (DA_UID m, AgeGroup m, Sex m, Region m, DA_Share m, Projected_Pop m))
        (merge_year agg year (step11_shares clean))
      = map (\<lambda>r. (DA_UID r, AgeGroup r, Sex r, Region r,
                   fdiv (Fin (Pop r)) (Fin (group_sum stratum Pop clean (stratum r))),
                   fmul (fdiv (Fin (Pop r)) (Fin (group_sum stratum Pop clean (stratum r))))
                     (case lookup_proj agg year (region_map_proj (Region r)) (Sex r) (AgeGroup r) of
                        None \<Rightarrow> NaN | Some t \<Rightarrow> Fin t)))
          clean"
    by (rule merge_year_projected)
next
  fix c assume "c \<in> set (combine_row df_da p)"
  then show "c_Projected_Pop c = fmul (Fin (c_Pop c)) (c_Prop_DA_in_Region_2021 c)"
    by (auto simp: combine_row_def Let_def split: if_splits)
next
  fix c assume "c \<in> set (combine_row df_da p)"
  then show "c_Pop c = p2_Pop p"
    by (auto simp: combine_row_def Let_def split: if_splits)
next
  show "map (\<lambda>c. (c_Year c, c_REGION_NAME c, c_AgeGroup c, c_Sex c, c_Pop c, c_DA_UID c,
                c_Prop_DA_in_Region_2021 c, c_Projected_Pop c)) (combine_row df_da p)
      = (if filter (\<lambda>d. region_name_map (p2_REGION_NAME p) = Some (da_REGION_NAME d)
                          \<and> AgeGroup d = p2_AgeGroup p \<and> Sex d = p2_Sex p) df_da = []
         then [(p2_Year p, p2_REGION_NAME p, p2_AgeGroup p, p2_Sex p, p2_Pop p, None, NaN, NaN)]
         else map (\<lambda>d. (p2_Year p, p2_REGION_NAME p, p2_AgeGroup p, p2_Sex p, p2_Pop p,
                         Some (DA_UID d), Prop_DA_in_Region_2021 d,
                         fmul (Fin (p2_Pop p)) (Prop_DA_in_Region_2021 d)))
                (filter (\<lambda>d. region_name_map (p2_REGION_NAME p) = Some (da_REGION_NAME d)
                              \<and> AgeGroup d = p2_AgeGroup p \<and> Sex d = p2_Sex p) df_da))"
    by (rule combine_row_cols)
next
  fix d
  assume "d \<in> set df_da"
    and "region_name_map (p2_REGION_NAME p) = Some (da_REGION_NAME d)
         \<and> AgeGroup d = p2_AgeGroup p \<and> Sex d = p2_Sex p"
  then show "\<exists>c \<in> set (combine_row df_da p).
            c_DA_UID c = Some (DA_UID d)
            \<and> c_Prop_DA_in_Region_2021 c = Prop_DA_in_Region_2021 d
            \<and> c_Projected_Pop c = fmul (Fin (p2_Pop p)) (Prop_DA_in_Region_2021 d)"
    by (intro combine_row_hit) simp_all
next
  fix c uid
  assume "c \<in> set (combine_row df_da p)" "c_DA_UID c = Some uid"
  then show "\<exists>d \<in> set df_da. DA_UID d = uid
            \<and> region_name_map (p2_REGION_NAME p) = Some (da_REGION_NAME d)
            \<and> AgeGroup d = p2_AgeGroup p \<and> Sex d = p2_Sex p
            \<and> c_Prop_DA_in_Region_2021 c = Prop_DA_in_Region_2021 d
            \<and> c_Projected_Pop c = fmul (Fin (p2_Pop p)) (Prop_DA_in_Region_2021 d)"
    by (rule combine_row_src)
next
  fix d assume "d \<in> set (proportions_2 (assign_regions_2 df_da0))"
  then show "Prop_DA_in_Region_2021 d
           = fdiv (Fin (Pop d))
               (case map_of region_age_sex_2021 (da_REGION_NAME d, AgeGroup d, Sex d) of
                  None \<Rightarrow> NaN | Some T \<Rightarrow> Fin T)"
    by (rule proportions_2_prop)
next
  show "step5_aggregate (step4_proj example_proj) = example_agg" by code_simp
next
  show "map (\<lambda>r. (DA_UID r, RegionPop r, DA_Share r))
        (step11_shares (step9_split DA_BORDER_DAs (step8_assign DA_BORDER_DAs (step4_da example_da))))
      = [(''35190001'', 100, Fin (6 / 10)), (''35190002'', 100, Fin (4 / 10))]" by code_simp
next
  show "run_script1 DA_BORDER_DAs example_proj example_da = Inr example_projected" by code_simp
next
  show "map out_Projected_Pop example_projected = [Fin 300, Fin 200]" by code_simp
next
  show "map difference (proj_check example_projected example_agg) = [Fin 0]" by code_simp
next
  show "run_script2 example_proj2 example_da2 = Inr example_combined" by code_simp
next
  show "map (\<lambda>c. (c_DA_UID c, c_Pop c, c_Prop_DA_in_Region_2021 c, c_Projected_Pop c))
        example_combined
      = [(Some ''35180001'', 64230, Fin (100 / 64230), Fin 100)]" by code_simp
qed

theorem allocated_is_share_times_target_witness:
  "map (\<lambda>m. (DA_UID m, DA_Share m, Pop_y m, Projected_Pop m))
      (merge_year example_agg 2030 (step11_shares example_clean))
     = [(''35190001'', Fin (3 / 5), Fin 500, Fin 300), (''35190002'', Fin (2 / 5), Fin 500, Fin 200)]
   \<and> Projected_Pop (hd (merge_year example_agg 2030 (step11_shares example_clean)))
       = fmul (DA_Share (hd (merge_year example_agg 2030 (step11_shares example_clean)))) (Fin 500)
   \<and> run_script1 DA_BORDER_DAs example_proj example_da = Inr example_projected
   \<and> map (\<lambda>d. (DA_UID d, da_REGION_NAME d, AgeGroup d, Sex d, Prop_DA_in_Region_2021 d))
        (proportions_2 (assign_regions_2 example_da2))
      = [(''35180001'', ''Durham'', ''0-17'', ''M'', Fin (100 / 64230))]
   \<and> (\<exists>c \<in> set (combine_row (proportions_2 (assign_regions_2 example_da2))
                      (hd (aggregate_2 example_proj2))).
         c_DA_UID c = Some ''35180001'' \<and> c_Projected_Pop c = Fin 100)"
proof -
  let ?ms = "merge_year example_agg 2030 (step11_shares example_clean)"
  let ?D = "proportions_2 (assign_regions_2 example_da2)"
  let ?p = "hd (aggregate_2 example_proj2)"
  note inst = allocated_is_share_times_target [where agg = example_agg and year = 2030
      and clean = example_clean and df_da = ?D and p = ?p]
  have ms: "map (\<lambda>m. (DA_UID m, DA_Share m, Pop_y m, Projected_Pop m)) ?ms
     = [(''35190001'', Fin (3 / 5), Fin 500, Fin 300), (''35190002'', Fin (2 / 5), Fin 500, Fin 200)]"
    by code_simp
  have ne: "?ms \<noteq> []" by code_simp
  then have hd_in: "hd ?ms \<in> set ?ms" by simp
  have r: "region_map_proj (Region (hd ?ms)) = Some ''York Region Public Health Services''"
    by code_simp
  have t: "map_of example_agg (2030, ''York Region Public Health Services'', Sex (hd ?ms), AgeGroup (hd ?ms)) = Some 500"
    by code_simp
  from inst [THEN conjunct1] hd_in r t
  have a: "Projected_Pop (hd ?ms) = fmul (DA_Share (hd ?ms)) (Fin 500)"
    by blast
  have run: "run_script1 DA_BORDER_DAs example_proj example_da = Inr example_projected"
    by code_simp
  have ds: "map (\<lambda>d. (DA_UID d, da_REGION_NAME d, AgeGroup d, Sex d, Prop_DA_in_Region_2021 d)) ?D
      = [(''35180001'', ''Durham'', ''0-17'', ''M'', Fin (100 / 64230))]"
    by code_simp
  have dne: "?D \<noteq> []" by code_simp
  then have d_in: "hd ?D \<in> set ?D" by simp
  have key: "region_name_map (p2_REGION_NAME ?p) = Some (da_REGION_NAME (hd ?D))
         \<and> AgeGroup (hd ?D) = p2_AgeGroup ?p \<and> Sex (hd ?D) = p2_Sex ?p"
    by code_simp
  have uid: "DA_UID (hd ?D) = ''35180001''" by code_simp
  have val: "fmul (Fin (p2_Pop ?p)) (Prop_DA_in_Region_2021 (hd ?D)) = Fin 100" by code_simp
  from inst [THEN conjunct2, THEN conjunct2, THEN conjunct2, THEN conjunct2, THEN conjunct1,
      THEN bspec, OF d_in, THEN mp, OF key]
  have "\<exists>c \<in> set (combine_row ?D ?p).
            c_DA_UID c = Some (DA_UID (hd ?D))
            \<and> c_Prop_DA_in_Region_2021 c = Prop_DA_in_Region_2021 (hd ?D)
            \<and> c_Projected_Pop c = fmul (Fin (p2_Pop ?p)) (Prop_DA_in_Region_2021 (hd ?D))" .
  then have b: "\<exists>c \<in> set (combine_row ?D ?p).
         c_DA_UID c = Some ''35180001'' \<and> c_Projected_Pop c = Fin 100"
    unfolding uid val by blast
  show ?thesis by (intro conjI ms a run ds b)
qed

subsection \<open>Shares\<close>

lemma sum_skipna_Fin_comp: "sum_skipna (map (\<lambda>x. Fin (f x)) xs) = Fin (sum_list (map f xs))"
  using sum_skipna_Fin [of "map f xs"] by (simp add: o_def)

lemma filter_stratum_shares:
  "filter (\<lambda>r. stratum r = k) (step11_shares clean)
     = map (\<lambda>r. \<lparr>DA_UID = DA_UID r, AgeGroup = AgeGroup r, Sex = Sex r, Pop = Pop r,
                  Region = Region r, RegionPop = group_sum stratum Pop clean k,
                  DA_Share = fdiv (Fin (Pop r)) (Fin (group_sum stratum Pop clean k))\<rparr>)
         (filter (\<lambda>r. stratum r = k) clean)"
proof -
  have "filter (\<lambda>r. stratum r = k) (step11_shares clean)
      = map (\<lambda>r. \<lparr>DA_UID = DA_UID r, AgeGroup = AgeGroup r, Sex = Sex r, Pop = Pop r,
                  Region = Region r, RegionPop = group_sum stratum Pop clean (stratum r),
                  DA_Share = fdiv (Fin (Pop r)) (Fin (group_sum stratum Pop clean (stratum r)))\<rparr>)
         (filter (\<lambda>r. stratum r = k) clean)"
    by (simp add: step11_shares_def Let_def filter_map o_def stratum_def)
  also have "\<dots> = map (\<lambda>r. \<lparr>DA_UID = DA_UID r, AgeGroup = AgeGroup r, Sex = Sex r, Pop = Pop r,
                  Region = Region r, RegionPop = group_sum stratum Pop clean k,
                  DA_Share = fdiv (Fin (Pop r)) (Fin (group_sum stratum Pop clean k))\<rparr>)
         (filter (\<lambda>r. stratum r = k) clean)"
    by (rule map_cong) auto
  finally show ?thesis .
qed

lemma shares_of_stratum:
  "map DA_Share (filter (\<lambda>r. stratum r = k) (step11_shares clean))
     = map (\<lambda>r. div_ff (Pop r) (group_sum stratum Pop clean k)) (filter (\<lambda>r. stratum r = k) clean)"
  by (simp add: filter_stratum_shares o_def)

lemma shares_sum_nonzero:
  assumes "group_sum stratum Pop clean k \<noteq> 0"
  shows "shares_sum (step11_shares clean) k = Fin 1"
proof -
  let ?S = "group_sum stratum Pop clean k"
  let ?rows = "filter (\<lambda>r. stratum r = k) clean"
  have "map DA_Share (filter (\<lambda>r. stratum r = k) (step11_shares clean))
      = map (\<lambda>r. Fin (Pop r / ?S)) ?rows"
    using assms by (simp add: shares_of_stratum div_ff_def)
  then have "shares_sum (step11_shares clean) k = Fin (sum_list (map (\<lambda>r. Pop r / ?S) ?rows))"
    by (simp add: shares_sum_def group_sum_skipna_def sum_skipna_Fin_comp)
  also have "sum_list (map (\<lambda>r. Pop r / ?S) ?rows) = sum_list (map Pop ?rows) / ?S"
    by (simp add: divide_inverse sum_list_mult_const)
  also have "\<dots> = 1" using assms by (simp add: group_sum_def)
  finally show ?thesis .
qed

lemma census_positive: "map_of region_age_sex_2021 k = Some T \<Longrightarrow> 0 < T"
  by (auto simp: region_age_sex_2021_def split: if_splits)

lemma assigned_region_short:
  assumes "r \<in> set (assign_regions_2 df_da)"
  shows "replace_region_name (da_REGION_NAME r) = da_REGION_NAME r"
proof -
  from assms have "da_REGION_NAME r = ''Durham'' \<or> da_REGION_NAME r = ''York''"
    by (auto simp: assign_regions_2_def assign_region_by_da_def List.map_filter_def
        split: option.splits if_splits)
  then show ?thesis by (auto simp: replace_region_name_def region_name_map_def)
qed

lemma props_of_stratum_2:
  assumes "map_of region_age_sex_2021 k = Some T"
  shows "map Prop_DA_in_Region_2021
           (filter (\<lambda>r. stratum_2 r = k) (proportions_2 (assign_regions_2 df_da)))
       = map (\<lambda>r. Fin (Pop r / T)) (filter (\<lambda>r. stratum_2 r = k) (assign_regions_2 df_da))"
proof -
  let ?df = "assign_regions_2 df_da"
  from assms have T: "T \<noteq> 0" using census_positive by fastforce
  have "map Prop_DA_in_Region_2021 (filter (\<lambda>r. stratum_2 r = k) (proportions_2 ?df))
      = map (\<lambda>r. fdiv (Fin (Pop r))
                 (case map_of region_age_sex_2021 (replace_region_name (da_REGION_NAME r), AgeGroup r, Sex r) of
                    None \<Rightarrow> NaN | Some p \<Rightarrow> Fin p))
          (filter (\<lambda>r. (replace_region_name (da_REGION_NAME r), AgeGroup r, Sex r) = k) ?df)"
    by (simp add: proportions_2_def Let_def filter_map o_def stratum_2_def)
  also have "\<dots> = map (\<lambda>r. Fin (Pop r / T))
          (filter (\<lambda>r. (replace_region_name (da_REGION_NAME r), AgeGroup r, Sex r) = k) ?df)"
    using assms T by (intro map_cong) (auto simp: div_ff_def)
  also have "filter (\<lambda>r. (replace_region_name (da_REGION_NAME r), AgeGroup r, Sex r) = k) ?df
           = filter (\<lambda>r. stratum_2 r = k) ?df"
    by (rule filter_cong) (auto simp: stratum_2_def assigned_region_short)
  finally show ?thesis .
qed

lemma props_sum_2:
  assumes "map_of region_age_sex_2021 k = Some T"
  shows "group_sum_skipna stratum_2 Prop_DA_in_Region_2021
           (proportions_2 (assign_regions_2 df_da)) k
       = Fin (group_sum stratum_2 Pop (assign_regions_2 df_da) k / T)"
proof -
  let ?rows = "filter (\<lambda>r. stratum_2 r = k) (assign_regions_2 df_da)"
  have "group_sum_skipna stratum_2 Prop_DA_in_Region_2021 (proportions_2 (assign_regions_2 df_da)) k
      = sum_skipna (map (\<lambda>r. Fin (Pop r / T)) ?rows)"
    by (simp add: group_sum_skipna_def props_of_stratum_2 [OF assms])
  also have "\<dots> = Fin (sum_list (map (\<lambda>r. Pop r / T) ?rows))"
    by (rule sum_skipna_Fin_comp)
  also have "sum_list (map (\<lambda>r. Pop r / T) ?rows) = sum_list (map Pop ?rows) / T"
    by (simp add: divide_inverse sum_list_mult_const)
  finally show ?thesis by (simp add: group_sum_def)
qed

text \<open>
  C3. In the first script the shares of every stratum with a positive population sum to
  1 (exactly in this model, hence within tolerance), and the stratum is not in the
  warning of Step 12. In the second script the denominator is the census figure of the
  fixed table, so the proportions of a stratum sum to the stratum's DA population
  divided by that figure, which is 1 only when the two agree.
\<close>

theorem shares_sum_per_path:
  "(0 < group_sum stratum Pop clean k \<longrightarrow>
      shares_sum (step11_shares clean) k = Fin 1
      \<and> isclose_1 (shares_sum (step11_shares clean) k)
      \<and> k \<notin> set (step12_warning (step11_shares clean)))
   \<and> (\<forall>T. map_of region_age_sex_2021 k = Some T \<longrightarrow>
        group_sum_skipna stratum_2 Prop_DA_in_Region_2021
            (proportions_2 (assign_regions_2 df_da)) k
          = Fin (group_sum stratum_2 Pop (assign_regions_2 df_da) k / T))"
  by (simp add: shares_sum_nonzero step12_warning_def props_sum_2)

theorem shares_sum_per_path_witness:
  "0 < group_sum stratum Pop example_clean (''York'', ''0-17'', ''M'')
   \<and> shares_sum (step11_shares example_clean) (''York'', ''0-17'', ''M'') = Fin 1
   \<and> map_of region_age_sex_2021 (''Durham'', ''0-17'', ''M'') = Some 64230
   \<and> group_sum_skipna stratum_2 Prop_DA_in_Region_2021
        (proportions_2 (assign_regions_2 example_da2)) (''Durham'', ''0-17'', ''M'')
      = Fin (100 / 64230)"
proof -
  have p: "0 < group_sum stratum Pop example_clean (''York'', ''0-17'', ''M'')" by code_simp
  have t: "map_of region_age_sex_2021 (''Durham'', ''0-17'', ''M'') = Some 64230" by code_simp
  have g: "group_sum stratum_2 Pop (assign_regions_2 example_da2) (''Durham'', ''0-17'', ''M'') = 100"
    by code_simp
  show ?thesis
    using p t g
      shares_sum_per_path [of example_clean "(''York'', ''0-17'', ''M'')"]
      shares_sum_per_path [of _ "(''Durham'', ''0-17'', ''M'')" example_da2]
    by simp
qed

theorem shares_sum_script2_counterexample:
  "0 < group_sum stratum_2 Pop (assign_regions_2 example_da2) (''Durham'', ''0-17'', ''M'')
   \<and> group_sum_skipna stratum_2 Prop_DA_in_Region_2021
        (proportions_2 (assign_regions_2 example_da2)) (''Durham'', ''0-17'', ''M'')
      = Fin (10 / 6423)
   \<and> \<not> \<bar>10 / 6423 - 1 :: rat\<bar> \<le> 1 / 1000"
  by code_simp

subsection \<open>Strata without population\<close>

lemma sum_skipna_all_NaN: "\<forall>v \<in> set vs. v = NaN \<Longrightarrow> sum_skipna vs = Fin 0"
proof -
  assume "\<forall>v \<in> set vs. v = NaN"
  then have "filter notna vs = []" by (auto simp: filter_empty_conv notna_def)
  then show ?thesis by (simp add: sum_skipna_def)
qed

lemma map_stratum_shares: "map stratum (step11_shares clean) = map stratum clean"
  by (rule nth_equalityI) (simp_all add: step11_shares_def Let_def stratum_def)

lemma group_keys_shares: "group_keys stratum (step11_shares clean) = group_keys stratum clean"
  by (simp add: group_keys_def map_stratum_shares)

lemma zero_stratum_pops:
  assumes "group_sum stratum Pop clean k = 0" "\<forall>r \<in> set clean. stratum r = k \<longrightarrow> 0 \<le> Pop r"
    and "r \<in> set clean" "stratum r = k"
  shows "Pop r = 0"
proof -
  let ?ps = "map Pop (filter (\<lambda>r. stratum r = k) clean)"
  have "\<And>x. x \<in> set ?ps \<Longrightarrow> 0 \<le> x" using assms(2) by auto
  then have "sum_list ?ps = 0 \<longleftrightarrow> (\<forall>x \<in> set ?ps. x = 0)" by (rule sum_list_nonneg_eq_0_iff)
  moreover have "sum_list ?ps = 0" using assms(1) by (simp add: group_sum_def)
  moreover have "Pop r \<in> set ?ps" using assms(3,4) by auto
  ultimately show ?thesis by blast
qed

lemma zero_stratum_shares:
  assumes "group_sum stratum Pop clean k = 0" "\<forall>r \<in> set clean. stratum r = k \<longrightarrow> 0 \<le> Pop r"
  shows "\<forall>v \<in> set (map DA_Share (filter (\<lambda>r. stratum r = k) (step11_shares clean))). v = NaN"
  using assms zero_stratum_pops [OF assms]
  by (auto simp: shares_of_stratum div_ff_def)

lemma zero_stratum_shares_sum:
  assumes "group_sum stratum Pop clean k = 0" "\<forall>r \<in> set clean. stratum r = k \<longrightarrow> 0 \<le> Pop r"
  shows "shares_sum (step11_shares clean) k = Fin 0"
  unfolding shares_sum_def group_sum_skipna_def
  by (rule sum_skipna_all_NaN) (rule zero_stratum_shares [OF assms])

theorem zero_total_share_counterexample:
  "map RegionPop
     (step11_shares (step9_split DA_BORDER_DAs (step8_assign DA_BORDER_DAs (step4_da example_zero_da))))
     = [0]
   \<and> map DA_Share
     (step11_shares (step9_split DA_BORDER_DAs (step8_assign DA_BORDER_DAs (step4_da example_zero_da))))
     = [NaN]
   \<and> NaN \<noteq> Fin 0"
  by code_simp

subsection \<open>Strata without a projection\<close>

lemma merge_year_cols:
  assumes "m \<in> set (merge_year agg year shares)"
  shows "Projected_Pop m = fmul (DA_Share m)
            (case lookup_proj agg year (region_map_proj (Region m)) (Sex m) (AgeGroup m) of
               None \<Rightarrow> NaN | Some t \<Rightarrow> Fin t)
       \<and> Region_proj_name m = region_map_proj (Region m)
       \<and> YEAR_JULY_1 m = (case lookup_proj agg year (region_map_proj (Region m)) (Sex m) (AgeGroup m) of
               None \<Rightarrow> None | Some t \<Rightarrow> Some year)"
  using assms by (auto simp: merge_year_def Let_def)

lemma fmul_NaN_right: "fmul v NaN = NaN"
  by (cases v) simp_all

text \<open>
  C6. Step 14 is a left merge: every share row gives one row in every year, also when
  its stratum has no projection. Such a row is exported with an undefined (\<open>NaN\<close>)
  projected population, not 0, and without a year; Step 15 drops it from the check, and
  no report lists it.
\<close>

theorem unmatched_stratum_kept_undefined:
  "(\<forall>m \<in> set (merge_year agg year shares).
       lookup_proj agg year (region_map_proj (Region m)) (Sex m) (AgeGroup m) = None \<longrightarrow>
         Projected_Pop m = NaN \<and> Projected_Pop m \<noteq> Fin 0 \<and> YEAR_JULY_1 m = None
         \<and> check_keyed [select_columns m] = [])
   \<and> map DA_UID (merge_year agg year shares) = map DA_UID shares
   \<and> (\<forall>out. run_script1 border df_proj df0 = Inr out \<longrightarrow>
         out = map select_columns
                 (step14_project (step5_aggregate (step4_proj df_proj))
                    (step11_shares (step9_split border (step8_assign border (step4_da df0))))))"
proof (intro conjI ballI impI allI)
  fix m
  assume m: "m \<in> set (merge_year agg year shares)"
    and n: "lookup_proj agg year (region_map_proj (Region m)) (Sex m) (AgeGroup m) = None"
  show p: "Projected_Pop m = NaN"
    using merge_year_cols [OF m] n by (simp add: fmul_NaN_right)
  then show "Projected_Pop m \<noteq> Fin 0" by simp
  show y: "YEAR_JULY_1 m = None"
    using merge_year_cols [OF m] n by simp
  then show "check_keyed [select_columns m] = []"
    by (simp add: check_keyed_def select_columns_def)
next
  show "map DA_UID (merge_year agg year shares) = map DA_UID shares"
    by (simp add: merge_year_def Let_def o_def)
next
  fix out assume "run_script1 border df_proj df0 = Inr out"
  then show "out = map select_columns
                 (step14_project (step5_aggregate (step4_proj df_proj))
                    (step11_shares (step9_split border (step8_assign border (step4_da df0)))))"
    by (auto simp: run_script1_def Let_def split: if_splits)
qed

theorem unmatched_stratum_kept_undefined_witness:
  "lookup_proj example_agg 2030 (region_map_proj ''York'') ''M'' ''85+'' = None
   \<and> map (\<lambda>m. (DA_UID m, YEAR_JULY_1 m, Projected_Pop m))
        (merge_year example_agg 2030
           (step11_shares (step9_split DA_BORDER_DAs
              (step8_assign DA_BORDER_DAs (step4_da example_unmatched_da)))))
      = [(''35190001'', Some 2030, Fin 500), (''35190002'', None, NaN)]
   \<and> run_script1 DA_BORDER_DAs example_proj example_unmatched_da = Inr example_unmatched_projected"
proof -
  let ?shares = "step11_shares (step9_split DA_BORDER_DAs
              (step8_assign DA_BORDER_DAs (step4_da example_unmatched_da)))"
  let ?ms = "merge_year example_agg 2030 ?shares"
  have l: "lookup_proj example_agg 2030 (region_map_proj ''York'') ''M'' ''85+'' = None"
    by code_simp
  have c: "map (\<lambda>m. (DA_UID m, Region m, Sex m, AgeGroup m)) ?ms
      = [(''35190001'', ''York'', ''M'', ''0-17''), (''35190002'', ''York'', ''M'', ''85+'')]"
    by code_simp
  have y: "map (\<lambda>m. (DA_UID m, YEAR_JULY_1 m, Projected_Pop m)) ?ms
      = [(''35190001'', Some 2030, Fin 500), (''35190002'', None, NaN)]"
    by code_simp
  have len: "length ?ms = 2" by code_simp
  then have in2: "?ms ! 1 \<in> set ?ms" by simp
  have r: "Region (?ms ! 1) = ''York'' \<and> Sex (?ms ! 1) = ''M'' \<and> AgeGroup (?ms ! 1) = ''85+''"
    by code_simp
  have run: "run_script1 DA_BORDER_DAs example_proj example_unmatched_da
               = Inr example_unmatched_projected"
    by code_simp
  from unmatched_stratum_kept_undefined [of example_agg 2030 ?shares] in2 r l
  have "Projected_Pop (?ms ! 1) = NaN" by simp
  with l y run show ?thesis by simp
qed

theorem unmatched_stratum_counterexample:
  "run_script1 DA_BORDER_DAs example_proj example_unmatched_da = Inr example_unmatched_projected
   \<and> map out_AgeGroup example_unmatched_projected = [''0-17'', ''85+'']
   \<and> map out_Projected_Pop example_unmatched_projected = [Fin 500, NaN]
   \<and> map fst (proj_check example_unmatched_projected example_agg)
       = [(2030, ''York Region Public Health Services'', ''M'', ''0-17'')]"
  by code_simp

subsection \<open>The final check\<close>

lemma not_flt_trans:
  "notna a \<Longrightarrow> notna b \<Longrightarrow> notna c \<Longrightarrow> \<not> flt a b \<Longrightarrow> \<not> flt b c \<Longrightarrow> \<not> flt a c"
  by (cases a; cases b; cases c) (simp_all add: notna_def)

lemma not_flt_refl: "\<not> flt a a"
  by (cases a) simp_all

lemma fmax2_notna: "notna a \<Longrightarrow> notna b \<Longrightarrow> notna (fmax2 a b)"
  by (simp add: fmax2_def)

lemma fmax2_ge_left: "notna a \<Longrightarrow> notna b \<Longrightarrow> \<not> flt (fmax2 a b) a"
  by (cases a; cases b) (simp_all add: fmax2_def notna_def)

lemma fmax2_ge_right: "notna a \<Longrightarrow> notna b \<Longrightarrow> \<not> flt (fmax2 a b) b"
  by (cases a; cases b) (simp_all add: fmax2_def notna_def)

lemma foldl_fmax2_notna:
  "notna v \<Longrightarrow> \<forall>x \<in> set rest. notna x \<Longrightarrow> notna (foldl fmax2 v rest)"
  by (induction rest arbitrary: v) (simp_all add: fmax2_notna)

lemma foldl_fmax2_ge_init:
  "notna v \<Longrightarrow> \<forall>x \<in> set rest. notna x \<Longrightarrow> \<not> flt (foldl fmax2 v rest) v"
proof (induction rest arbitrary: v)
  case Nil
  show ?case by (simp add: not_flt_refl)
next
  case (Cons a rest)
  have na: "notna a" and nr: "\<forall>x \<in> set rest. notna x" using Cons.prems(2) by simp_all
  have nm: "notna (fmax2 v a)" using Cons.prems(1) na by (rule fmax2_notna)
  have top: "\<not> flt (foldl fmax2 (fmax2 v a) rest) (fmax2 v a)" using nm nr by (rule Cons.IH)
  have nf: "notna (foldl fmax2 (fmax2 v a) rest)" using nm nr by (rule foldl_fmax2_notna)
  have "\<not> flt (foldl fmax2 (fmax2 v a) rest) v"
    using nf nm Cons.prems(1) top fmax2_ge_left [OF Cons.prems(1) na] by (rule not_flt_trans)
  then show ?case by simp
qed

lemma foldl_fmax2_ge_elem:
  "notna v \<Longrightarrow> \<forall>x \<in> set rest. notna x \<Longrightarrow> x \<in> set rest \<Longrightarrow> \<not> flt (foldl fmax2 v rest) x"
proof (induction rest arbitrary: v)
  case Nil
  then show ?case by simp
next
  case (Cons a rest)
  have na: "notna a" and nr: "\<forall>x \<in> set rest. notna x" using Cons.prems(2) by simp_all
  have nm: "notna (fmax2 v a)" using Cons.prems(1) na by (rule fmax2_notna)
  have nf: "notna (foldl fmax2 (fmax2 v a) rest)" using nm nr by (rule foldl_fmax2_notna)
  show ?case
  proof (cases "x = a")
    case True
    have top: "\<not> flt (foldl fmax2 (fmax2 v a) rest) (fmax2 v a)"
      using nm nr by (rule foldl_fmax2_ge_init)
    have "\<not> flt (foldl fmax2 (fmax2 v a) rest) a"
      using nf nm na top fmax2_ge_right [OF Cons.prems(1) na] by (rule not_flt_trans)
    with True show ?thesis by simp
  next
    case False
    with Cons.prems(3) have "x \<in> set rest" by simp
    with nm nr have "\<not> flt (foldl fmax2 (fmax2 v a) rest) x" by (rule Cons.IH)
    then show ?thesis by simp
  qed
qed

lemma max_skipna_ge:
  assumes "x \<in> set vs" "notna x"
  shows "notna (max_skipna vs) \<and> \<not> flt (max_skipna vs) x"
proof -
  from assms have xin: "x \<in> set (filter notna vs)" by simp
  then obtain v rest where vr: "filter notna vs = v # rest" by (cases "filter notna vs") auto
  have "\<forall>y \<in> set (filter notna vs). notna y" by simp
  then have "\<forall>y \<in> set (v # rest). notna y" unfolding vr .
  then have nv: "notna v" and nr: "\<forall>y \<in> set rest. notna y" by simp_all
  have m: "max_skipna vs = foldl fmax2 v rest" unfolding max_skipna_def vr by simp
  from xin have "x = v \<or> x \<in> set rest" unfolding vr by simp
  then have "\<not> flt (foldl fmax2 v rest) x"
  proof
    assume "x = v" then show ?thesis using foldl_fmax2_ge_init [OF nv nr] by simp
  next
    assume "x \<in> set rest" with nv nr show ?thesis by (rule foldl_fmax2_ge_elem)
  qed
  moreover have "notna (foldl fmax2 v rest)" using nv nr by (rule foldl_fmax2_notna)
  ultimately show ?thesis unfolding m by simp
qed

lemma max_skipna_not_below:
  assumes "x \<in> set vs" "notna x" "\<not> flt x (Fin c)"
  shows "\<not> flt (max_skipna vs) (Fin c)"
proof -
  have a: "notna (max_skipna vs)" and b: "\<not> flt (max_skipna vs) x"
    using max_skipna_ge [OF assms(1,2)] by simp_all
  have c: "notna (Fin c)" by (simp add: notna_def)
  show ?thesis using a assms(2) c b assms(3) by (rule not_flt_trans)
qed





subsection \<open>A stratum without population at the final check\<close>

lemma region_map_proj_inj:
  "region_map_proj a = Some n \<Longrightarrow> region_map_proj b = Some n \<Longrightarrow> a = b"
  by (auto simp: region_map_proj_def split: if_splits)

lemma merge_year_src:
  assumes "m \<in> set (merge_year agg year shares)"
  shows "\<exists>r \<in> set shares. DA_Share m = DA_Share r \<and> Region m = Region r
           \<and> Sex m = Sex r \<and> AgeGroup m = AgeGroup r"
  using assms by (auto simp: merge_year_def Let_def)

lemma merge_year_of_row:
  assumes "r \<in> set shares"
  shows "\<exists>m \<in> set (merge_year agg year shares). DA_Share m = DA_Share r \<and> Region m = Region r
           \<and> Sex m = Sex r \<and> AgeGroup m = AgeGroup r"
proof -
  let ?f = "\<lambda>r. \<lparr>DA_UID = DA_UID r, AgeGroup = AgeGroup r, Sex = Sex r, Pop = Pop r,
                  Region = Region r, RegionPop = RegionPop r, DA_Share = DA_Share r,
                  Region_proj_name = region_map_proj (Region r),
                  YEAR_JULY_1 =
                    (case lookup_proj agg year (region_map_proj (Region r)) (Sex r) (AgeGroup r) of
                       None \<Rightarrow> None | Some p \<Rightarrow> Some year),
                  Pop_y =
                    (case lookup_proj agg year (region_map_proj (Region r)) (Sex r) (AgeGroup r) of
                       None \<Rightarrow> NaN | Some p \<Rightarrow> Fin p),
                  Projected_Pop = fmul (DA_Share r)
                    (case lookup_proj agg year (region_map_proj (Region r)) (Sex r) (AgeGroup r) of
                       None \<Rightarrow> NaN | Some p \<Rightarrow> Fin p)\<rparr>"
  have "merge_year agg year shares = map ?f shares" by (simp add: merge_year_def Let_def)
  with assms have "?f r \<in> set (merge_year agg year shares)" by simp
  then show ?thesis by (rule bexI [rotated]) simp
qed

lemma step14_project_iff:
  "m \<in> set (step14_project agg shares)
     \<longleftrightarrow> (\<exists>y \<in> set (years_of agg). m \<in> set (merge_year agg y shares))"
  by (auto simp: step14_project_def)

lemma check_keyed_elem:
  assumes "kv \<in> set (check_keyed (map select_columns ms))"
  shows "\<exists>m \<in> set ms. \<exists>y rn. YEAR_JULY_1 m = Some y \<and> Region_proj_name m = Some rn
           \<and> kv = ((y, rn, Sex m, AgeGroup m), Projected_Pop m)"
  using assms
  by (induction ms) (auto simp: check_keyed_def select_columns_def split: option.splits)

lemma check_keyed_of_row:
  assumes "m \<in> set ms" "YEAR_JULY_1 m = Some y" "Region_proj_name m = Some rn"
  shows "((y, rn, Sex m, AgeGroup m), Projected_Pop m) \<in> set (check_keyed (map select_columns ms))"
  using assms
  by (induction ms) (auto simp: check_keyed_def select_columns_def split: option.splits)

lemma year_of_key:
  assumes "map_of agg (y, rn, sex, ag) = Some t"
  shows "y \<in> set (years_of agg)"
proof -
  from assms have "((y, rn, sex, ag), t) \<in> set agg" by (rule map_of_SomeD)
  then have "(\<lambda>(k, p). fst k) ((y, rn, sex, ag), t) \<in> (\<lambda>(k, p). fst k) ` set agg"
    by (rule imageI)
  then show ?thesis by (simp add: years_of_def)
qed

lemma zero_stratum_share_NaN:
  assumes "group_sum stratum Pop clean k = 0" "\<forall>r \<in> set clean. stratum r = k \<longrightarrow> 0 \<le> Pop r"
    and "r \<in> set (step11_shares clean)" "stratum r = k"
  shows "DA_Share r = NaN"
proof -
  from assms(3,4)
  have "DA_Share r \<in> set (map DA_Share (filter (\<lambda>r. stratum r = k) (step11_shares clean)))"
    by auto
  with zero_stratum_shares [OF assms(1,2)] show ?thesis by blast
qed

lemma fmul_NaN_left: "fmul NaN v = NaN"
  by (cases v) simp_all

lemma zero_stratum_projected_NaN:
  assumes z: "group_sum stratum Pop clean k = 0"
    and nn: "\<forall>r \<in> set clean. stratum r = k \<longrightarrow> 0 \<le> Pop r"
    and m: "m \<in> set (merge_year agg year (step11_shares clean))" and k: "stratum m = k"
  shows "Projected_Pop m = NaN"
proof -
  from merge_year_src [OF m] obtain r where r: "r \<in> set (step11_shares clean)"
    and e: "DA_Share m = DA_Share r" "Region m = Region r" "Sex m = Sex r"
      "AgeGroup m = AgeGroup r" by blast
  from e k have "stratum r = k" by (simp add: stratum_def)
  with z nn r have "DA_Share r = NaN" by (rule zero_stratum_share_NaN)
  with e(1) merge_year_cols [OF m] show ?thesis by (simp add: fmul_NaN_left)
qed

lemma zero_stratum_fails_check:
  assumes z: "group_sum stratum Pop clean (region, ag, sex) = 0"
    and key: "(region, ag, sex) \<in> set (group_keys stratum clean)"
    and nn: "\<forall>r \<in> set clean. stratum r = (region, ag, sex) \<longrightarrow> 0 \<le> Pop r"
    and rn: "region_map_proj region = Some rn"
    and t: "map_of agg (y, rn, sex, ag) = Some t"
    and big: "1 / 100 \<le> \<bar>t\<bar>"
  shows "\<not> step15_ok (map select_columns (step14_project agg (step11_shares clean))) agg"
proof -
  let ?k = "(region, ag, sex)"
  let ?K = "(y, rn, sex, ag)"
  let ?ms = "step14_project agg (step11_shares clean)"
  let ?P = "map select_columns ?ms"
  let ?rows = "check_keyed ?P"
  have look: "lookup_proj agg y (region_map_proj region) sex ag = Some t"
    using rn t by (simp add: lookup_proj_def)
  from key have "?k \<in> set (map stratum (step11_shares clean))"
    by (simp add: group_keys_def map_stratum_shares)
  then obtain r0 where r0: "r0 \<in> set (step11_shares clean)" "stratum r0 = ?k" by auto
  from merge_year_of_row [OF r0(1), of agg y] obtain m0
    where m0: "m0 \<in> set (merge_year agg y (step11_shares clean))"
      and e0: "Region m0 = Region r0" "Sex m0 = Sex r0" "AgeGroup m0 = AgeGroup r0" by blast
  from e0 r0(2) have f0: "Region m0 = region" "Sex m0 = sex" "AgeGroup m0 = ag"
    by (simp_all add: stratum_def)
  have y0: "YEAR_JULY_1 m0 = Some y" and n0: "Region_proj_name m0 = Some rn"
    using merge_year_cols [OF m0] look rn by (simp_all add: f0)
  have "m0 \<in> set ?ms" using m0 year_of_key [OF t] by (auto simp: step14_project_iff)
  from check_keyed_of_row [OF this y0 n0]
  have "(?K, Projected_Pop m0) \<in> set ?rows" by (simp add: f0)
  then have "fst (?K, Projected_Pop m0) \<in> fst ` set ?rows" by (rule imageI)
  then have Kin: "?K \<in> set (group_keys fst ?rows)" by (simp add: group_keys_def)
  have allnan: "\<forall>v \<in> set (map snd (filter (\<lambda>kv. fst kv = ?K) ?rows)). v = NaN"
  proof
    fix v assume "v \<in> set (map snd (filter (\<lambda>kv. fst kv = ?K) ?rows))"
    then obtain kv where kv: "kv \<in> set ?rows" "fst kv = ?K" "v = snd kv" by auto
    from check_keyed_elem [OF kv(1)] obtain m y' rn'
      where m: "m \<in> set ?ms" and ym: "YEAR_JULY_1 m = Some y'"
        and nm: "Region_proj_name m = Some rn'"
        and kvm: "kv = ((y', rn', Sex m, AgeGroup m), Projected_Pop m)" by blast
    from kv(2) kvm have eqs: "rn' = rn" "Sex m = sex" "AgeGroup m = ag" by simp_all
    from m obtain y'' where my: "m \<in> set (merge_year agg y'' (step11_shares clean))"
      by (auto simp: step14_project_iff)
    from merge_year_cols [OF my] nm eqs(1) have "region_map_proj (Region m) = Some rn" by simp
    then have "Region m = region" using rn by (rule region_map_proj_inj)
    with eqs have "stratum m = ?k" by (simp add: stratum_def)
    with z nn my have "Projected_Pop m = NaN" by (rule zero_stratum_projected_NaN)
    with kv(3) kvm show "v = NaN" by simp
  qed
  have total: "group_sum_skipna fst snd ?rows ?K = Fin 0"
    unfolding group_sum_skipna_def using allnan by (rule sum_skipna_all_NaN)
  let ?c = "(?K, Fin 0, Fin t, fsub (Fin 0) (Fin t))"
  have "?c = (\<lambda>k. (k, group_sum_skipna fst snd ?rows k,
                    (case map_of agg k of None \<Rightarrow> NaN | Some p \<Rightarrow> Fin p),
                    fsub (group_sum_skipna fst snd ?rows k)
                      (case map_of agg k of None \<Rightarrow> NaN | Some p \<Rightarrow> Fin p))) ?K"
    by (simp add: total t)
  with Kin have cin: "?c \<in> set (proj_check ?P agg)"
    by (simp only: proj_check_def Let_def set_map) (rule imageI)
  have d: "fabs (difference ?c) = Fin \<bar>t\<bar>" by (simp add: difference_def fsub_def)
  have "fabs (difference ?c) \<in> set (map (\<lambda>c. fabs (difference c)) (proj_check ?P agg))"
    using cin by (simp only: set_map) (rule imageI)
  moreover have "notna (fabs (difference ?c))" unfolding d by (simp add: notna_def)
  moreover have "\<not> flt (fabs (difference ?c)) (Fin (1 / 100))" unfolding d using big by simp
  ultimately have "\<not> flt (max_diff ?P agg) (Fin (1 / 100))"
    unfolding max_diff_def by (rule max_skipna_not_below)
  then show ?thesis by (simp add: step15_ok_def)
qed

lemma step11_rows:
  "map (\<lambda>r. (DA_UID r, Pop r, RegionPop r, DA_Share r)) (step11_shares clean)
     = map (\<lambda>r. (DA_UID r, Pop r, group_sum stratum Pop clean (stratum r),
                  fdiv (Fin (Pop r)) (Fin (group_sum stratum Pop clean (stratum r))))) clean"
  by (simp add: step11_shares_def Let_def o_def)

lemma run_script1_outcomes:
  "(\<exists>out. run_script1 border df_proj df0 = Inr out)
   \<or> run_script1 border df_proj df0
        = Inl (AssertionError ''Population total changed after splitting border DAs!'')
   \<or> run_script1 border df_proj df0 = Inl (ValueError ''No objects to concatenate'')
   \<or> run_script1 border df_proj df0
        = Inl (AssertionError ''Large differences found - check calculations.'')"
  by (simp add: run_script1_def Let_def)

text \<open>
  C4. The division of Step 11 gives every row a share, also when the population of its
  stratum sums to 0, and the run can only stop at its two assertions or at the empty
  concatenation. In a stratum whose population sums to 0 the share of a unit is never 0:
  it is \<open>NaN\<close> for a unit without population and an infinity otherwise. When the base
  values are non-negative every share of the stratum is \<open>NaN\<close>, the shares sum to 0
  (missing cells are skipped) and the stratum is listed in the warning of Step 12; every
  projected population of the stratum is \<open>NaN\<close>, and when the stratum has a regional
  projection of absolute value 1e-2 or more in some year, the assertion of Step 15 fails
  and the run delivers no frame.
\<close>

theorem zero_total_share_undefined:
  "(\<forall>r \<in> set (step11_shares clean). RegionPop r = 0 \<longrightarrow>
       DA_Share r = (if 0 < Pop r then PInf else if Pop r < 0 then NInf else NaN)
       \<and> DA_Share r \<noteq> Fin 0)
   \<and> (group_sum stratum Pop clean k = 0 \<and> k \<in> set (group_keys stratum clean)
        \<and> (\<forall>r \<in> set clean. stratum r = k \<longrightarrow> 0 \<le> Pop r) \<longrightarrow>
        (\<forall>r \<in> set (step11_shares clean). stratum r = k \<longrightarrow> DA_Share r = NaN)
        \<and> shares_sum (step11_shares clean) k = Fin 0
        \<and> k \<in> set (step12_warning (step11_shares clean))
        \<and> (\<forall>m \<in> set (merge_year agg year (step11_shares clean)).
              stratum m = k \<longrightarrow> Projected_Pop m = NaN))
   \<and> map (\<lambda>r. (DA_UID r, Pop r, RegionPop r, DA_Share r)) (step11_shares clean)
      = map (\<lambda>r. (DA_UID r, Pop r, group_sum stratum Pop clean (stratum r),
                   fdiv (Fin (Pop r)) (Fin (group_sum stratum Pop clean (stratum r))))) clean
   \<and> (group_sum stratum Pop clean (region, ag, sex) = 0
        \<and> (region, ag, sex) \<in> set (group_keys stratum clean)
        \<and> (\<forall>r \<in> set clean. stratum r = (region, ag, sex) \<longrightarrow> 0 \<le> Pop r)
        \<and> region_map_proj region = Some rn
        \<and> map_of agg (y, rn, sex, ag) = Some t \<and> 1 / 100 \<le> \<bar>t\<bar> \<longrightarrow>
        \<not> step15_ok (map select_columns (step14_project agg (step11_shares clean))) agg)
   \<and> (group_sum stratum Pop
          (step9_split border (step8_assign border (step4_da df0))) (region, ag, sex) = 0
        \<and> (region, ag, sex)
             \<in> set (group_keys stratum (step9_split border (step8_assign border (step4_da df0))))
        \<and> (\<forall>r \<in> set (step9_split border (step8_assign border (step4_da df0))).
              stratum r = (region, ag, sex) \<longrightarrow> 0 \<le> Pop r)
        \<and> region_map_proj region = Some rn
        \<and> map_of (step5_aggregate (step4_proj df_proj)) (y, rn, sex, ag) = Some t
        \<and> 1 / 100 \<le> \<bar>t\<bar> \<longrightarrow>
        (\<forall>out. run_script1 border df_proj df0 \<noteq> Inr out))
   \<and> ((\<exists>out. run_script1 border df_proj df0 = Inr out)
        \<or> run_script1 border df_proj df0
             = Inl (AssertionError ''Population total changed after splitting border DAs!'')
        \<or> run_script1 border df_proj df0 = Inl (ValueError ''No objects to concatenate'')
        \<or> run_script1 border df_proj df0
             = Inl (AssertionError ''Large differences found - check calculations.''))
   \<and> run_script1 border df_proj df0 \<noteq> Inl ZeroDivisionError"
proof (intro conjI ballI impI allI)
  fix r assume "r \<in> set (step11_shares clean)" "RegionPop r = 0"
  then show "DA_Share r = (if 0 < Pop r then PInf else if Pop r < 0 then NInf else NaN)"
    by (auto simp: step11_shares_def Let_def div_ff_def)
next
  fix r assume "r \<in> set (step11_shares clean)" "RegionPop r = 0"
  then show "DA_Share r \<noteq> Fin 0"
    by (auto simp: step11_shares_def Let_def div_ff_def split: if_splits)
next
  fix r
  assume h: "group_sum stratum Pop clean k = 0 \<and> k \<in> set (group_keys stratum clean)
        \<and> (\<forall>r \<in> set clean. stratum r = k \<longrightarrow> 0 \<le> Pop r)"
    and r: "r \<in> set (step11_shares clean)" "stratum r = k"
  from h have z: "group_sum stratum Pop clean k = 0"
    and nn: "\<forall>r \<in> set clean. stratum r = k \<longrightarrow> 0 \<le> Pop r" by simp_all
  from z nn r show "DA_Share r = NaN" by (rule zero_stratum_share_NaN)
next
  assume h: "group_sum stratum Pop clean k = 0 \<and> k \<in> set (group_keys stratum clean)
        \<and> (\<forall>r \<in> set clean. stratum r = k \<longrightarrow> 0 \<le> Pop r)"
  then show "shares_sum (step11_shares clean) k = Fin 0"
    by (simp add: zero_stratum_shares_sum)
next
  assume h: "group_sum stratum Pop clean k = 0 \<and> k \<in> set (group_keys stratum clean)
        \<and> (\<forall>r \<in> set clean. stratum r = k \<longrightarrow> 0 \<le> Pop r)"
  then have "shares_sum (step11_shares clean) k = Fin 0"
    by (simp add: zero_stratum_shares_sum)
  with h show "k \<in> set (step12_warning (step11_shares clean))"
    by (simp add: step12_warning_def group_keys_shares)
next
  fix m
  assume h: "group_sum stratum Pop clean k = 0 \<and> k \<in> set (group_keys stratum clean)
        \<and> (\<forall>r \<in> set clean. stratum r = k \<longrightarrow> 0 \<le> Pop r)"
    and m: "m \<in> set (merge_year agg year (step11_shares clean))" "stratum m = k"
  from h have z: "group_sum stratum Pop clean k = 0"
    and nn: "\<forall>r \<in> set clean. stratum r = k \<longrightarrow> 0 \<le> Pop r" by simp_all
  from z nn m show "Projected_Pop m = NaN" by (rule zero_stratum_projected_NaN)
next
  show "map (\<lambda>r. (DA_UID r, Pop r, RegionPop r, DA_Share r)) (step11_shares clean)
      = map (\<lambda>r. (DA_UID r, Pop r, group_sum stratum Pop clean (stratum r),
                   fdiv (Fin (Pop r)) (Fin (group_sum stratum Pop clean (stratum r))))) clean"
    by (rule step11_rows)
next
  assume h: "group_sum stratum Pop clean (region, ag, sex) = 0
        \<and> (region, ag, sex) \<in> set (group_keys stratum clean)
        \<and> (\<forall>r \<in> set clean. stratum r = (region, ag, sex) \<longrightarrow> 0 \<le> Pop r)
        \<and> region_map_proj region = Some rn
        \<and> map_of agg (y, rn, sex, ag) = Some t \<and> 1 / 100 \<le> \<bar>t\<bar>"
  then have "group_sum stratum Pop clean (region, ag, sex) = 0"
    "(region, ag, sex) \<in> set (group_keys stratum clean)"
    "\<forall>r \<in> set clean. stratum r = (region, ag, sex) \<longrightarrow> 0 \<le> Pop r"
    "region_map_proj region = Some rn" "map_of agg (y, rn, sex, ag) = Some t" "1 / 100 \<le> \<bar>t\<bar>"
    by simp_all
  then show "\<not> step15_ok (map select_columns (step14_project agg (step11_shares clean))) agg"
    by (rule zero_stratum_fails_check)
next
  fix out
  let ?clean = "step9_split border (step8_assign border (step4_da df0))"
  let ?agg = "step5_aggregate (step4_proj df_proj)"
  assume h: "group_sum stratum Pop ?clean (region, ag, sex) = 0
        \<and> (region, ag, sex) \<in> set (group_keys stratum ?clean)
        \<and> (\<forall>r \<in> set ?clean. stratum r = (region, ag, sex) \<longrightarrow> 0 \<le> Pop r)
        \<and> region_map_proj region = Some rn
        \<and> map_of ?agg (y, rn, sex, ag) = Some t
        \<and> 1 / 100 \<le> \<bar>t\<bar>"
  then have "group_sum stratum Pop ?clean (region, ag, sex) = 0"
    "(region, ag, sex) \<in> set (group_keys stratum ?clean)"
    "\<forall>r \<in> set ?clean. stratum r = (region, ag, sex) \<longrightarrow> 0 \<le> Pop r"
    "region_map_proj region = Some rn" "map_of ?agg (y, rn, sex, ag) = Some t" "1 / 100 \<le> \<bar>t\<bar>"
    by simp_all
  then have "\<not> step15_ok (map select_columns (step14_project ?agg (step11_shares ?clean))) ?agg"
    by (rule zero_stratum_fails_check)
  then show "run_script1 border df_proj df0 \<noteq> Inr out"
    by (simp add: run_script1_def Let_def)
next
  show "(\<exists>out. run_script1 border df_proj df0 = Inr out)
        \<or> run_script1 border df_proj df0
             = Inl (AssertionError ''Population total changed after splitting border DAs!'')
        \<or> run_script1 border df_proj df0 = Inl (ValueError ''No objects to concatenate'')
        \<or> run_script1 border df_proj df0
             = Inl (AssertionError ''Large differences found - check calculations.'')"
    by (rule run_script1_outcomes)
next
  show "run_script1 border df_proj df0 \<noteq> Inl ZeroDivisionError"
    by (simp add: run_script1_def Let_def)
qed

theorem zero_total_share_undefined_witness:
  "map RegionPop (step11_shares example_zero_clean) = [0]
   \<and> group_sum stratum Pop example_zero_clean (''York'', ''0-17'', ''M'') = 0
   \<and> DA_Share (hd (step11_shares example_zero_clean)) = NaN
   \<and> shares_sum (step11_shares example_zero_clean) (''York'', ''0-17'', ''M'') = Fin 0
   \<and> (''York'', ''0-17'', ''M'') \<in> set (step12_warning (step11_shares example_zero_clean))
   \<and> map_of example_agg (2030, ''York Region Public Health Services'', ''M'', ''0-17'') = Some 500
   \<and> \<not> step15_ok
         (map select_columns (step14_project example_agg (step11_shares example_zero_clean)))
         example_agg
   \<and> (\<forall>out. run_script1 DA_BORDER_DAs example_proj example_zero_da \<noteq> Inr out)
   \<and> run_script1 DA_BORDER_DAs example_proj example_zero_da
       = Inl (AssertionError ''Large differences found - check calculations.'')"
proof -
  let ?k = "(''York'', ''0-17'', ''M'')"
  let ?rn = "''York Region Public Health Services''"
  have a: "map RegionPop (step11_shares example_zero_clean) = [0]" by code_simp
  have ne: "step11_shares example_zero_clean \<noteq> []" by code_simp
  then have hd_in: "hd (step11_shares example_zero_clean) \<in> set (step11_shares example_zero_clean)"
    by simp
  have s: "stratum (hd (step11_shares example_zero_clean)) = ?k" by code_simp
  have g: "group_sum stratum Pop example_zero_clean ?k = 0" by code_simp
  have k: "?k \<in> set (group_keys stratum example_zero_clean)" by code_simp
  have p: "\<forall>r \<in> set example_zero_clean. stratum r = ?k \<longrightarrow> 0 \<le> Pop r"
    by (simp add: example_zero_clean_def)
  have rn: "region_map_proj ''York'' = Some ?rn" by code_simp
  have t: "map_of example_agg (2030, ?rn, ''M'', ''0-17'') = Some 500" by code_simp
  have big: "1 / 100 \<le> \<bar>500 :: rat\<bar>" by simp
  have agg: "step5_aggregate (step4_proj example_proj) = example_agg" by code_simp
  have clean: "step9_split DA_BORDER_DAs (step8_assign DA_BORDER_DAs (step4_da example_zero_da))
                 = example_zero_clean" by code_simp
  note inst = zero_total_share_undefined [where clean = example_zero_clean and k = ?k
      and region = "''York''" and ag = "''0-17''" and sex = "''M''" and rn = ?rn
      and agg = example_agg and y = 2030 and t = 500
      and border = DA_BORDER_DAs and ?df0.0 = example_zero_da and df_proj = example_proj]
  have c2: "(\<forall>r \<in> set (step11_shares example_zero_clean). stratum r = ?k \<longrightarrow> DA_Share r = NaN)
        \<and> shares_sum (step11_shares example_zero_clean) ?k = Fin 0
        \<and> ?k \<in> set (step12_warning (step11_shares example_zero_clean))
        \<and> (\<forall>m \<in> set (merge_year example_agg year (step11_shares example_zero_clean)).
              stratum m = ?k \<longrightarrow> Projected_Pop m = NaN)" for year
    by (rule zero_total_share_undefined [where clean = example_zero_clean and k = ?k
          and agg = example_agg, THEN conjunct2, THEN conjunct1, THEN mp]) (intro conjI g k p)
  from c2 hd_in s have nan: "DA_Share (hd (step11_shares example_zero_clean)) = NaN" by blast
  have c4: "\<not> step15_ok
         (map select_columns (step14_project example_agg (step11_shares example_zero_clean)))
         example_agg"
    by (rule inst [THEN conjunct2, THEN conjunct2, THEN conjunct2, THEN conjunct1, THEN mp])
      (intro conjI g k p rn t big)
  have c5: "\<forall>out. run_script1 DA_BORDER_DAs example_proj example_zero_da \<noteq> Inr out"
    by (rule inst [THEN conjunct2, THEN conjunct2, THEN conjunct2, THEN conjunct2, THEN conjunct1,
          unfolded agg clean, THEN mp]) (intro conjI g k p rn t big)
  have run: "run_script1 DA_BORDER_DAs example_proj example_zero_da
       = Inl (AssertionError ''Large differences found - check calculations.'')" by code_simp
  show ?thesis
    by (intro conjI a g nan c2 [THEN conjunct2, THEN conjunct1]
        c2 [THEN conjunct2, THEN conjunct2, THEN conjunct1] t c4 c5 run)
qed

subsection \<open>Region by prefix in the second script\<close>

lemma startswith_prefixes:
  "startswith s durham_prefix \<longleftrightarrow> take 4 s = ''3518''"
  "startswith s york_prefix \<longleftrightarrow> take 4 s = ''3519''"
  by (simp_all add: startswith_def durham_prefix_def york_prefix_def eval_nat_numeral)

lemma assign_regions_2_cols:
  "map (\<lambda>r. (DA_UID r, AgeGroup r, Sex r, Pop r)) (assign_regions_2 df_da)
     = map (\<lambda>r. (DA_UID r, AgeGroup r, Sex r, Pop r))
         (filter (\<lambda>r. Sex r \<in> set [''M'', ''F''] \<and> assign_region_by_da (DA_UID r) \<noteq> None) df_da)"
  unfolding assign_regions_2_def
  by (induction df_da) (auto split: option.splits)

lemma assign_regions_2_region:
  "r \<in> set (assign_regions_2 df_da) \<Longrightarrow> assign_region_by_da (DA_UID r) = Some (da_REGION_NAME r)"
  unfolding assign_regions_2_def
  by (induction df_da) (auto split: option.splits if_splits)

text \<open>
  C9. The second script gives a DA the region of its four-character prefix: \<open>3518\<close> is
  Durham, \<open>3519\<close> is York, any other DA is dropped. Every kept row passes through once
  with its population unchanged, so no population is split; the border DAs 35190009 and
  35190965, which the first script marks \<open>Border\<close> and splits between Durham and York,
  are York rows with their whole population.
\<close>

theorem region_by_prefix_whole:
  "(assign_region_by_da uid = Some ''Durham'' \<longleftrightarrow> take 4 uid = ''3518'')
   \<and> (assign_region_by_da uid = Some ''York'' \<longleftrightarrow> take 4 uid = ''3519'')
   \<and> (assign_region_by_da uid = None \<longleftrightarrow> take 4 uid \<noteq> ''3518'' \<and> take 4 uid \<noteq> ''3519'')
   \<and> map (\<lambda>r. (DA_UID r, AgeGroup r, Sex r, Pop r)) (assign_regions_2 df_da)
       = map (\<lambda>r. (DA_UID r, AgeGroup r, Sex r, Pop r))
           (filter (\<lambda>r. Sex r \<in> set [''M'', ''F''] \<and> assign_region_by_da (DA_UID r) \<noteq> None) df_da)
   \<and> (\<forall>r \<in> set (assign_regions_2 df_da).
         assign_region_by_da (DA_UID r) = Some (da_REGION_NAME r))
   \<and> assign_region_by_da ''35190009'' = Some ''York''
   \<and> assign_region_by_da ''35190965'' = Some ''York''
   \<and> map (\<lambda>r. (DA_UID r, da_REGION_NAME r, Pop r)) (assign_regions_2 example_border_da)
       = [(''35190001'', ''York'', 60), (''35190009'', ''York'', 80)]
   \<and> assign_region DA_BORDER_DAs ''35190009'' ''3519'' = ''Border''
   \<and> assign_region DA_BORDER_DAs ''35190965'' ''3519'' = ''Border''
   \<and> map (\<lambda>r. (DA_UID r, Region r, Pop r))
        (step9_split DA_BORDER_DAs (step8_assign DA_BORDER_DAs example_border_da))
       = [(''35190001'', ''York'', 60), (''35190009'', ''Durham'', 10), (''35190009'', ''York'', 70)]"
proof (intro conjI ballI)
  show "assign_region_by_da uid = Some ''Durham'' \<longleftrightarrow> take 4 uid = ''3518''"
    by (simp add: assign_region_by_da_def startswith_prefixes)
  show "assign_region_by_da uid = Some ''York'' \<longleftrightarrow> take 4 uid = ''3519''"
    by (auto simp: assign_region_by_da_def startswith_prefixes)
  show "assign_region_by_da uid = None \<longleftrightarrow> take 4 uid \<noteq> ''3518'' \<and> take 4 uid \<noteq> ''3519''"
    by (simp add: assign_region_by_da_def startswith_prefixes)
  show "map (\<lambda>r. (DA_UID r, AgeGroup r, Sex r, Pop r)) (assign_regions_2 df_da)
       = map (\<lambda>r. (DA_UID r, AgeGroup r, Sex r, Pop r))
           (filter (\<lambda>r. Sex r \<in> set [''M'', ''F''] \<and> assign_region_by_da (DA_UID r) \<noteq> None) df_da)"
    by (rule assign_regions_2_cols)
  show "assign_region_by_da ''35190009'' = Some ''York''" by code_simp
  show "assign_region_by_da ''35190965'' = Some ''York''" by code_simp
  show "map (\<lambda>r. (DA_UID r, da_REGION_NAME r, Pop r)) (assign_regions_2 example_border_da)
       = [(''35190001'', ''York'', 60), (''35190009'', ''York'', 80)]" by code_simp
  show "assign_region DA_BORDER_DAs ''35190009'' ''3519'' = ''Border''" by code_simp
  show "assign_region DA_BORDER_DAs ''35190965'' ''3519'' = ''Border''" by code_simp
  show "map (\<lambda>r. (DA_UID r, Region r, Pop r))
        (step9_split DA_BORDER_DAs (step8_assign DA_BORDER_DAs example_border_da))
       = [(''35190001'', ''York'', 60), (''35190009'', ''Durham'', 10), (''35190009'', ''York'', 70)]"
    by code_simp
next
  fix r assume "r \<in> set (assign_regions_2 df_da)"
  then show "assign_region_by_da (DA_UID r) = Some (da_REGION_NAME r)"
    by (rule assign_regions_2_region)
qed

theorem region_by_prefix_whole_witness:
  "DA_UID (assign_regions_2 example_border_da ! 1) = ''35190009''
   \<and> da_REGION_NAME (assign_regions_2 example_border_da ! 1) = ''York''
   \<and> Pop (assign_regions_2 example_border_da ! 1) = 80
   \<and> assign_region_by_da ''35190009'' = Some ''York''"
proof -
  let ?rows = "assign_regions_2 example_border_da"
  have len: "length ?rows = 2" by code_simp
  then have mem: "?rows ! 1 \<in> set ?rows" by simp
  have uid: "DA_UID (?rows ! 1) = ''35190009''" by code_simp
  have pop: "Pop (?rows ! 1) = 80" by code_simp
  note t = region_by_prefix_whole [of "''35190009''" example_border_da]
  from t mem have "assign_region_by_da (DA_UID (?rows ! 1)) = Some (da_REGION_NAME (?rows ! 1))"
    by blast
  moreover from t have y: "assign_region_by_da ''35190009'' = Some ''York''" by blast
  ultimately have "da_REGION_NAME (?rows ! 1) = ''York''" unfolding uid by simp
  with uid pop y show ?thesis by simp
qed

subsection \<open>Sums and percentages within a zone\<close>

lemma by_quintile_alt:
  "by_quintile zone dim_col df
     = map (\<lambda>r. ((zone r, the (dim_col r)), r)) (filter (\<lambda>r. dim_col r \<noteq> None) df)"
  unfolding by_quintile_def
  by (induction df) (auto split: option.splits)

lemma zone_keys:
  "filter (\<lambda>g. fst g = z) (group_keys fst rows)
     = group_keys fst (filter (\<lambda>kr. fst (fst kr) = z) rows)"
proof -
  have "filter (\<lambda>g. fst g = z) (remdups (map fst rows))
      = remdups (filter (\<lambda>g. fst g = z) (map fst rows))"
    by (rule remdups_filter [symmetric])
  also have "filter (\<lambda>g. fst g = z) (map fst rows)
      = map fst (filter (\<lambda>kr. fst (fst kr) = z) rows)"
    by (induction rows) simp_all
  finally show ?thesis by (simp only: group_keys_def)
qed

lemma zone_group_sum:
  "fst g = z \<Longrightarrow> group_sum fst col rows g = group_sum fst col (filter (\<lambda>kr. fst (fst kr) = z) rows) g"
proof -
  assume "fst g = z"
  then have "filter (\<lambda>kr. fst kr = g) (filter (\<lambda>kr. fst (fst kr) = z) rows)
           = filter (\<lambda>kr. fst kr = g) rows"
    by (induction rows) auto
  then show ?thesis by (simp add: group_sum_def)
qed

lemma zone_quintile_total:
  "sum_list (map (\<lambda>g. group_sum fst (\<lambda>kr. val (snd kr)) (by_quintile zone dim_col df) g)
        (filter (\<lambda>g. fst g = z) (group_keys fst (by_quintile zone dim_col df))))
     = sum_list (map val (filter (\<lambda>r. zone r = z \<and> dim_col r \<noteq> None) df))"
proof -
  let ?rows = "by_quintile zone dim_col df"
  let ?rz = "filter (\<lambda>kr. fst (fst kr) = z) ?rows"
  let ?v = "\<lambda>kr. val (snd kr)"
  have "map (\<lambda>g. group_sum fst ?v ?rows g) (filter (\<lambda>g. fst g = z) (group_keys fst ?rows))
      = map (\<lambda>g. group_sum fst ?v ?rz g) (filter (\<lambda>g. fst g = z) (group_keys fst ?rows))"
  proof (rule map_cong)
    fix g assume "g \<in> set (filter (\<lambda>g. fst g = z) (group_keys fst ?rows))"
    then have "fst g = z" by simp
    then show "group_sum fst ?v ?rows g = group_sum fst ?v ?rz g" by (rule zone_group_sum)
  qed simp
  also have "\<dots> = map (group_sum fst ?v ?rz) (group_keys fst ?rz)"
    by (simp add: zone_keys)
  finally have "sum_list (map (\<lambda>g. group_sum fst ?v ?rows g)
        (filter (\<lambda>g. fst g = z) (group_keys fst ?rows))) = sum_list (map ?v ?rz)"
    by (simp add: sum_group_keys)
  also have "map ?v ?rz = map val (filter (\<lambda>r. zone r = z \<and> dim_col r \<noteq> None) df)"
    unfolding by_quintile_alt by (induction df) simp_all
  finally show ?thesis .
qed

lemma zone_without_missing:
  assumes "\<forall>r \<in> set df. zone r = z \<longrightarrow> dim_col r \<noteq> None"
  shows "filter (\<lambda>r. zone r = z \<and> dim_col r \<noteq> None) df = filter (\<lambda>r. zone r = z) df"
  using assms by (intro filter_cong) auto

lemma group_sum_by_quintile:
  "group_sum fst (\<lambda>kr. val (snd kr)) (by_quintile zone dim_col df) (z, q)
     = sum_list (map val (filter (\<lambda>r. zone r = z \<and> dim_col r = Some q) df))"
  unfolding by_quintile_alt group_sum_def
  by (induction df) auto

lemma pop_analysis_row:
  assumes "a \<in> set (pop_analysis dim_col df)"
  shows "a2_Sum_of_Pop a
           = sum_list (map Sum_of_Pop
               (filter (\<lambda>r. DominantFSA r = a2_DominantFSA a \<and> dim_col r = Some (a2_Quintile a)) df))"
    and "a2_Total_Population a = group_sum DominantFSA Sum_of_Pop df (a2_DominantFSA a)"
    and "a2_Pop_Percentage a
           = fmul (fdiv (Fin (a2_Sum_of_Pop a)) (Fin (a2_Total_Population a))) (Fin 100)"
proof -
  from assms obtain g where g: "g \<in> set (group_keys fst (by_quintile DominantFSA dim_col df))"
    and a: "a = \<lparr>a2_DominantFSA = fst g, a2_Quintile = snd g,
                 a2_Sum_of_Pop =
                   group_sum fst (\<lambda>kr. Sum_of_Pop (snd kr)) (by_quintile DominantFSA dim_col df)
                     (fst g, snd g),
                 a2_Total_Population = group_sum DominantFSA Sum_of_Pop df (fst g),
                 a2_Pop_Percentage =
                   fmul (fdiv (Fin (group_sum fst (\<lambda>kr. Sum_of_Pop (snd kr))
                                      (by_quintile DominantFSA dim_col df) (fst g, snd g)))
                           (Fin (group_sum DominantFSA Sum_of_Pop df (fst g)))) (Fin 100)\<rparr>"
    by (auto simp: pop_analysis_def Let_def case_prod_unfold)
  show "a2_Sum_of_Pop a
           = sum_list (map Sum_of_Pop
               (filter (\<lambda>r. DominantFSA r = a2_DominantFSA a \<and> dim_col r = Some (a2_Quintile a)) df))"
    unfolding a
    using group_sum_by_quintile [of Sum_of_Pop DominantFSA dim_col df "fst g" "snd g"] by simp
  show "a2_Total_Population a = group_sum DominantFSA Sum_of_Pop df (a2_DominantFSA a)"
    unfolding a by simp
  show "a2_Pop_Percentage a
           = fmul (fdiv (Fin (a2_Sum_of_Pop a)) (Fin (a2_Total_Population a))) (Fin 100)"
    unfolding a by simp
qed

lemma alloc_analysis_row:
  assumes "a \<in> set (alloc_analysis dim_col prop_df)"
  shows "a3_Allocated_Population a
           = sum_list (map Allocated_Population
               (filter (\<lambda>r. p_FSA r = a3_FSA a \<and> dim_col r = Some (a3_Quintile a)) prop_df))"
    and "a3_Total_Population a = group_sum p_FSA Allocated_Population prop_df (a3_FSA a)"
    and "a3_Pop_Percentage a
           = fmul (fdiv (Fin (a3_Allocated_Population a)) (Fin (a3_Total_Population a))) (Fin 100)"
proof -
  from assms obtain g where g: "g \<in> set (group_keys fst (by_quintile p_FSA dim_col prop_df))"
    and a: "a = \<lparr>a3_FSA = fst g, a3_Quintile = snd g,
                 a3_Allocated_Population =
                   group_sum fst (\<lambda>kr. Allocated_Population (snd kr))
                     (by_quintile p_FSA dim_col prop_df) (fst g, snd g),
                 a3_Total_Population = group_sum p_FSA Allocated_Population prop_df (fst g),
                 a3_Pop_Percentage =
                   fmul (fdiv (Fin (group_sum fst (\<lambda>kr. Allocated_Population (snd kr))
                                      (by_quintile p_FSA dim_col prop_df) (fst g, snd g)))
                           (Fin (group_sum p_FSA Allocated_Population prop_df (fst g)))) (Fin 100)\<rparr>"
    by (auto simp: alloc_analysis_def Let_def case_prod_unfold)
  show "a3_Allocated_Population a
           = sum_list (map Allocated_Population
               (filter (\<lambda>r. p_FSA r = a3_FSA a \<and> dim_col r = Some (a3_Quintile a)) prop_df))"
    unfolding a
    using group_sum_by_quintile [of Allocated_Population p_FSA dim_col prop_df "fst g" "snd g"]
    by simp
  show "a3_Total_Population a = group_sum p_FSA Allocated_Population prop_df (a3_FSA a)"
    unfolding a by simp
  show "a3_Pop_Percentage a
           = fmul (fdiv (Fin (a3_Allocated_Population a)) (Fin (a3_Total_Population a))) (Fin 100)"
    unfolding a by simp
qed

lemma prop_frame_allocated:
  "r \<in> set (prop_frame onmarg_df pop_df da_fsa_df)
     \<Longrightarrow> Allocated_Population r = Sum_of_Pop r * p_Proportion r"
  by (auto simp: prop_frame_def)

lemma pop_analysis_zone_sum:
  "sum_list (map a2_Sum_of_Pop (filter (\<lambda>a. a2_DominantFSA a = z) (pop_analysis dim_col df)))
     = sum_list (map Sum_of_Pop (filter (\<lambda>r. DominantFSA r = z \<and> dim_col r \<noteq> None) df))"
proof -
  let ?rows = "by_quintile DominantFSA dim_col df"
  have "map a2_Sum_of_Pop (filter (\<lambda>a. a2_DominantFSA a = z) (pop_analysis dim_col df))
      = map (\<lambda>g. group_sum fst (\<lambda>kr. Sum_of_Pop (snd kr)) ?rows g)
          (filter (\<lambda>g. fst g = z) (group_keys fst ?rows))"
    by (simp add: pop_analysis_def Let_def filter_map o_def case_prod_unfold)
  then show ?thesis by (simp only: zone_quintile_total)
qed

text \<open>
  C7. In Approach 2 a (zone, quintile) group carries the sum of the populations of its
  DAs, the zone's total is the sum over all DAs of the zone, and the percentage is the
  one divided by the other, times 100; Approach 3 does the same with the populations
  weighted by the overlap proportions. For a zone of Approach 2 in which every DA has a
  quintile in the dimension and the populations are whole numbers, the sums of the
  zone's groups add up to the zone's total.
\<close>

theorem zone_allocated_values_sum_to_total:
  "((\<forall>r \<in> set df. DominantFSA r = z \<longrightarrow> dim_col r \<noteq> None)
      \<and> (\<forall>r \<in> set df. Sum_of_Pop r \<in> \<int>) \<longrightarrow>
      sum_list (map a2_Sum_of_Pop (filter (\<lambda>a. a2_DominantFSA a = z) (pop_analysis dim_col df)))
        = group_sum DominantFSA Sum_of_Pop df z)
   \<and> (\<forall>a \<in> set (pop_analysis dim_col df).
         a2_Sum_of_Pop a
           = sum_list (map Sum_of_Pop
               (filter (\<lambda>r. DominantFSA r = a2_DominantFSA a \<and> dim_col r = Some (a2_Quintile a)) df))
         \<and> a2_Total_Population a = group_sum DominantFSA Sum_of_Pop df (a2_DominantFSA a)
         \<and> a2_Pop_Percentage a
             = fmul (fdiv (Fin (a2_Sum_of_Pop a)) (Fin (a2_Total_Population a))) (Fin 100))
   \<and> (\<forall>a \<in> set (alloc_analysis dim_col3 prop_df).
         a3_Allocated_Population a
           = sum_list (map Allocated_Population
               (filter (\<lambda>r. p_FSA r = a3_FSA a \<and> dim_col3 r = Some (a3_Quintile a)) prop_df))
         \<and> a3_Total_Population a = group_sum p_FSA Allocated_Population prop_df (a3_FSA a)
         \<and> a3_Pop_Percentage a
             = fmul (fdiv (Fin (a3_Allocated_Population a)) (Fin (a3_Total_Population a))) (Fin 100))
   \<and> (\<forall>r \<in> set (prop_frame onmarg_df pop_df da_fsa_df).
         Allocated_Population r = Sum_of_Pop r * p_Proportion r)"
proof (intro conjI ballI impI)
  assume h: "(\<forall>r \<in> set df. DominantFSA r = z \<longrightarrow> dim_col r \<noteq> None)
      \<and> (\<forall>r \<in> set df. Sum_of_Pop r \<in> \<int>)"
  then have "filter (\<lambda>r. DominantFSA r = z \<and> dim_col r \<noteq> None) df
           = filter (\<lambda>r. DominantFSA r = z) df"
    by (intro zone_without_missing) simp
  then show "sum_list (map a2_Sum_of_Pop
                 (filter (\<lambda>a. a2_DominantFSA a = z) (pop_analysis dim_col df)))
        = group_sum DominantFSA Sum_of_Pop df z"
    by (simp add: pop_analysis_zone_sum group_sum_def)
next
  fix a assume a: "a \<in> set (pop_analysis dim_col df)"
  show "a2_Sum_of_Pop a
           = sum_list (map Sum_of_Pop
               (filter (\<lambda>r. DominantFSA r = a2_DominantFSA a \<and> dim_col r = Some (a2_Quintile a)) df))"
    using a by (rule pop_analysis_row(1))
  show "a2_Total_Population a = group_sum DominantFSA Sum_of_Pop df (a2_DominantFSA a)"
    using a by (rule pop_analysis_row(2))
  show "a2_Pop_Percentage a
             = fmul (fdiv (Fin (a2_Sum_of_Pop a)) (Fin (a2_Total_Population a))) (Fin 100)"
    using a by (rule pop_analysis_row(3))
next
  fix a assume a: "a \<in> set (alloc_analysis dim_col3 prop_df)"
  show "a3_Allocated_Population a
           = sum_list (map Allocated_Population
               (filter (\<lambda>r. p_FSA r = a3_FSA a \<and> dim_col3 r = Some (a3_Quintile a)) prop_df))"
    using a by (rule alloc_analysis_row(1))
  show "a3_Total_Population a = group_sum p_FSA Allocated_Population prop_df (a3_FSA a)"
    using a by (rule alloc_analysis_row(2))
  show "a3_Pop_Percentage a
             = fmul (fdiv (Fin (a3_Allocated_Population a)) (Fin (a3_Total_Population a))) (Fin 100)"
    using a by (rule alloc_analysis_row(3))
next
  fix r assume "r \<in> set (prop_frame onmarg_df pop_df da_fsa_df)"
  then show "Allocated_Population r = Sum_of_Pop r * p_Proportion r"
    by (rule prop_frame_allocated)
qed

theorem zone_allocated_values_sum_to_total_witness:
  "map (\<lambda>a. (a2_DominantFSA a, a2_Quintile a, a2_Sum_of_Pop a, a2_Total_Population a))
      (pop_analysis households_dwellings_q_DA21 example_unequal_df)
     = [(''L1A'', 1, 10, 40), (''L1A'', 2, 30, 40)]
   \<and> group_sum DominantFSA Sum_of_Pop example_unequal_df ''L1A'' = 40
   \<and> sum_list (map a2_Sum_of_Pop
        (filter (\<lambda>a. a2_DominantFSA a = ''L1A'')
           (pop_analysis households_dwellings_q_DA21 example_unequal_df))) = 40
   \<and> a2_Pop_Percentage (hd (pop_analysis households_dwellings_q_DA21 example_unequal_df))
       = fmul (fdiv (Fin 10) (Fin 40)) (Fin 100)
   \<and> map (\<lambda>r. (DAUID r, p_FSA r, Sum_of_Pop r, p_Proportion r))
        (prop_frame example_onmarg_df example_pop_df example_da_fsa_df)
      = [(''35190001'', ''L1A'', 100, 1 / 4), (''35190001'', ''L2B'', 100, 3 / 4),
         (''35190002'', ''L1A'', 60, 1)]
   \<and> Allocated_Population (hd (prop_frame example_onmarg_df example_pop_df example_da_fsa_df))
       = 100 * (1 / 4)
   \<and> map (\<lambda>a. (a3_FSA a, a3_Quintile a, a3_Allocated_Population a, a3_Total_Population a))
        (alloc_analysis households_dwellings_q_DA21
           (prop_frame example_onmarg_df example_pop_df example_da_fsa_df))
      = [(''L1A'', 1, 25, 85), (''L2B'', 1, 75, 75), (''L1A'', 2, 60, 85)]"
proof -
  let ?d = "households_dwellings_q_DA21 :: final_row \<Rightarrow> int option"
  let ?A = "pop_analysis ?d example_unequal_df"
  have v: "map (\<lambda>a. (a2_DominantFSA a, a2_Quintile a, a2_Sum_of_Pop a, a2_Total_Population a)) ?A
     = [(''L1A'', 1, 10, 40), (''L1A'', 2, 30, 40)]" by code_simp
  have t: "group_sum DominantFSA Sum_of_Pop example_unequal_df ''L1A'' = 40" by code_simp
  have "list_all (\<lambda>r. DominantFSA r = ''L1A'' \<longrightarrow> ?d r \<noteq> None) example_unequal_df"
    by code_simp
  then have q: "\<forall>r \<in> set example_unequal_df. DominantFSA r = ''L1A'' \<longrightarrow> ?d r \<noteq> None"
    by (simp only: list_all_iff)
  have w: "\<forall>r \<in> set example_unequal_df. Sum_of_Pop r \<in> \<int>"
    by (simp add: example_unequal_df_def onmarg_example_def)
  note inst = zone_allocated_values_sum_to_total [where df = example_unequal_df
      and z = "''L1A''" and dim_col = ?d]
  have s: "sum_list (map a2_Sum_of_Pop (filter (\<lambda>a. a2_DominantFSA a = ''L1A'') ?A)) = 40"
    using inst [THEN conjunct1, THEN mp, OF conjI [OF q w]] t by simp
  have ne: "?A \<noteq> []" by code_simp
  then have hd_in: "hd ?A \<in> set ?A" by simp
  have h1: "a2_Sum_of_Pop (hd ?A) = 10" by code_simp
  have h2: "a2_Total_Population (hd ?A) = 40" by code_simp
  have "a2_Pop_Percentage (hd ?A)
      = fmul (fdiv (Fin (a2_Sum_of_Pop (hd ?A))) (Fin (a2_Total_Population (hd ?A)))) (Fin 100)"
    using inst [THEN conjunct2, THEN conjunct1, THEN bspec, OF hd_in] by (rule conjunct2 [THEN conjunct2])
  then have p: "a2_Pop_Percentage (hd ?A) = fmul (fdiv (Fin 10) (Fin 40)) (Fin 100)"
    unfolding h1 h2 .
  let ?pf = "prop_frame example_onmarg_df example_pop_df example_da_fsa_df"
  have f: "map (\<lambda>r. (DAUID r, p_FSA r, Sum_of_Pop r, p_Proportion r)) ?pf
      = [(''35190001'', ''L1A'', 100, 1 / 4), (''35190001'', ''L2B'', 100, 3 / 4),
         (''35190002'', ''L1A'', 60, 1)]" by code_simp
  have fne: "?pf \<noteq> []" by code_simp
  then have f_in: "hd ?pf \<in> set ?pf" by simp
  have f1: "Sum_of_Pop (hd ?pf) = 100" by code_simp
  have f2: "p_Proportion (hd ?pf) = 1 / 4" by code_simp
  have "Allocated_Population (hd ?pf) = Sum_of_Pop (hd ?pf) * p_Proportion (hd ?pf)"
    by (rule zone_allocated_values_sum_to_total [where onmarg_df = example_onmarg_df
          and pop_df = example_pop_df and da_fsa_df = example_da_fsa_df,
          THEN conjunct2, THEN conjunct2, THEN conjunct2, THEN bspec, OF f_in])
  then have al: "Allocated_Population (hd ?pf) = 100 * (1 / 4)" unfolding f1 f2 .
  have a3: "map (\<lambda>a. (a3_FSA a, a3_Quintile a, a3_Allocated_Population a, a3_Total_Population a))
        (alloc_analysis households_dwellings_q_DA21 ?pf)
      = [(''L1A'', 1, 25, 85), (''L2B'', 1, 75, 75), (''L1A'', 2, 60, 85)]" by code_simp
  show ?thesis by (intro conjI v t s p f al a3)
qed

theorem zone_percentages_counterexample:
  "map (\<lambda>a. (a2_DominantFSA a, a2_Quintile a, a2_Sum_of_Pop a, a2_Total_Population a,
              a2_Pop_Percentage a))
      (pop_analysis households_dwellings_q_DA21 example_final_df)
     = [(''L1A'', 1, 100, 200, Fin 50), (''L2B'', 1, 0, 0, NaN)]
   \<and> sum_list (map a2_Sum_of_Pop
        (filter (\<lambda>a. a2_DominantFSA a = ''L1A'')
           (pop_analysis households_dwellings_q_DA21 example_final_df))) = 100
   \<and> group_sum DominantFSA Sum_of_Pop example_final_df ''L1A'' = 200
   \<and> pct_sums_2 (pop_analysis households_dwellings_q_DA21 example_final_df) ''L1A'' = Fin 50
   \<and> pct_sums_2 (pop_analysis households_dwellings_q_DA21 example_final_df) ''L2B'' = Fin 0
   \<and> Fin 50 \<noteq> Fin 100 \<and> Fin 0 \<noteq> Fin 100 \<and> (100 :: rat) \<noteq> 200"
  by code_simp

subsection \<open>Counts against populations\<close>

lemma quintile_key_zone:
  assumes "g \<in> set (group_keys fst (by_quintile zone dim_col df))"
  shows "0 < group_size zone df (fst g)"
proof -
  from assms obtain r where "r \<in> set df" "zone r = fst g"
    by (auto simp: group_keys_def by_quintile_alt)
  then have "r \<in> set (filter (\<lambda>r. zone r = fst g) df)" by simp
  then show ?thesis unfolding group_size_def by (rule length_pos_if_in_set)
qed

lemma zip_analysis:
  "zip (da_analysis dim_col df) (pop_analysis dim_col df)
     = map (\<lambda>g. (\<lparr>a1_DominantFSA = fst g, a1_Quintile = snd g,
                    DA_Count = group_size fst (by_quintile DominantFSA dim_col df) g,
                    Total_DAs = group_size DominantFSA df (fst g),
                    DA_Proportion =
                      fdiv (Fin (of_nat (group_size fst (by_quintile DominantFSA dim_col df) g)))
                        (Fin (of_nat (group_size DominantFSA df (fst g)))),
                    DA_Percentage =
                      fmul (fdiv (Fin (of_nat (group_size fst (by_quintile DominantFSA dim_col df) g)))
                              (Fin (of_nat (group_size DominantFSA df (fst g))))) (Fin 100)\<rparr>,
                  \<lparr>a2_DominantFSA = fst g, a2_Quintile = snd g,
                    a2_Sum_of_Pop =
                      group_sum fst (\<lambda>kr. Sum_of_Pop (snd kr)) (by_quintile DominantFSA dim_col df) g,
                    a2_Total_Population = group_sum DominantFSA Sum_of_Pop df (fst g),
                    a2_Pop_Percentage =
                      fmul (fdiv (Fin (group_sum fst (\<lambda>kr. Sum_of_Pop (snd kr))
                                         (by_quintile DominantFSA dim_col df) g))
                              (Fin (group_sum DominantFSA Sum_of_Pop df (fst g)))) (Fin 100)\<rparr>))
         (group_keys fst (by_quintile DominantFSA dim_col df))"
  by (simp add: da_analysis_def pop_analysis_def Let_def zip_map_map zip_same_conv_map
      case_prod_unfold o_def)

lemma zip_analysis_rows:
  assumes "(a, b) \<in> set (zip (da_analysis dim_col df) (pop_analysis dim_col df))"
  shows "a1_DominantFSA a = a2_DominantFSA b \<and> a1_Quintile a = a2_Quintile b"
    and "0 < group_size DominantFSA df (a1_DominantFSA a)"
    and "DA_Percentage a
           = fmul (fdiv (Fin (of_nat (DA_Count a)))
                    (Fin (of_nat (group_size DominantFSA df (a1_DominantFSA a))))) (Fin 100)"
    and "a2_Pop_Percentage b
           = fmul (fdiv (Fin (a2_Sum_of_Pop b))
                    (Fin (group_sum DominantFSA Sum_of_Pop df (a1_DominantFSA a)))) (Fin 100)"
proof -
  from assms obtain g where g: "g \<in> set (group_keys fst (by_quintile DominantFSA dim_col df))"
    and a: "a = \<lparr>a1_DominantFSA = fst g, a1_Quintile = snd g,
                    DA_Count = group_size fst (by_quintile DominantFSA dim_col df) g,
                    Total_DAs = group_size DominantFSA df (fst g),
                    DA_Proportion =
                      fdiv (Fin (of_nat (group_size fst (by_quintile DominantFSA dim_col df) g)))
                        (Fin (of_nat (group_size DominantFSA df (fst g)))),
                    DA_Percentage =
                      fmul (fdiv (Fin (of_nat (group_size fst (by_quintile DominantFSA dim_col df) g)))
                              (Fin (of_nat (group_size DominantFSA df (fst g))))) (Fin 100)\<rparr>"
    and b: "b = \<lparr>a2_DominantFSA = fst g, a2_Quintile = snd g,
                    a2_Sum_of_Pop =
                      group_sum fst (\<lambda>kr. Sum_of_Pop (snd kr)) (by_quintile DominantFSA dim_col df) g,
                    a2_Total_Population = group_sum DominantFSA Sum_of_Pop df (fst g),
                    a2_Pop_Percentage =
                      fmul (fdiv (Fin (group_sum fst (\<lambda>kr. Sum_of_Pop (snd kr))
                                         (by_quintile DominantFSA dim_col df) g))
                              (Fin (group_sum DominantFSA Sum_of_Pop df (fst g)))) (Fin 100)\<rparr>"
    unfolding zip_analysis by auto
  have pos: "0 < group_size DominantFSA df (fst g)" using g by (rule quintile_key_zone)
  show "a1_DominantFSA a = a2_DominantFSA b \<and> a1_Quintile a = a2_Quintile b"
    unfolding a b by simp
  show "0 < group_size DominantFSA df (a1_DominantFSA a)"
    using pos unfolding a by simp
  show "DA_Percentage a
           = fmul (fdiv (Fin (of_nat (DA_Count a)))
                    (Fin (of_nat (group_size DominantFSA df (a1_DominantFSA a))))) (Fin 100)"
    unfolding a by simp
  show "a2_Pop_Percentage b
           = fmul (fdiv (Fin (a2_Sum_of_Pop b))
                    (Fin (group_sum DominantFSA Sum_of_Pop df (a1_DominantFSA a)))) (Fin 100)"
    unfolding a b by simp
qed

lemma equal_percentages:
  fixes c n p t :: rat
  assumes "n \<noteq> 0" "fmul (fdiv (Fin c) (Fin n)) (Fin 100) = fmul (fdiv (Fin p) (Fin t)) (Fin 100)"
  shows "t \<noteq> 0 \<and> c * t = p * n"
proof (cases "t = 0")
  case True
  with assms show ?thesis by (simp add: div_ff_def split: if_splits)
next
  case False
  with assms show ?thesis by (simp add: div_ff_def field_simps)
qed

lemma cross_product:
  fixes c1 c2 p1 p2 n t :: rat
  assumes "n \<noteq> 0" "c1 * t = p1 * n" "c2 * t = p2 * n"
  shows "p1 * c2 = p2 * c1"
proof -
  have "(p1 * c2) * n = (p1 * n) * c2" by simp
  also have "\<dots> = (c1 * t) * c2" using assms(2) by simp
  also have "\<dots> = (c2 * t) * c1" by simp
  also have "\<dots> = (p2 * n) * c1" using assms(3) by simp
  also have "\<dots> = (p2 * c1) * n" by simp
  finally show ?thesis using assms(1) by simp
qed

text \<open>
  C8. Approaches 1 and 2 give one row per (FSA, quintile) group, in the same order: the
  share of the FSA's DAs in the group, and the share of the FSA's population in it. When
  two groups of an FSA differ in mean population per DA (population of the one times
  the DA count of the other is not the same both ways), some group of the FSA has a
  count share different from its population share. Unequal populations of the DAs
  alone do not force it.
\<close>

theorem count_and_population_shares_differ:
  "(\<forall>(a, b) \<in> set (zip (da_analysis dim_col df) (pop_analysis dim_col df)).
       a1_DominantFSA a = a2_DominantFSA b \<and> a1_Quintile a = a2_Quintile b)
   \<and> length (da_analysis dim_col df) = length (pop_analysis dim_col df)
   \<and> ((\<exists>(a1, b1) \<in> set (zip (da_analysis dim_col df) (pop_analysis dim_col df)).
        \<exists>(a2, b2) \<in> set (zip (da_analysis dim_col df) (pop_analysis dim_col df)).
          a1_DominantFSA a1 = z \<and> a1_DominantFSA a2 = z
          \<and> a2_Sum_of_Pop b1 * of_nat (DA_Count a2) \<noteq> a2_Sum_of_Pop b2 * of_nat (DA_Count a1))
       \<longrightarrow>
       (\<exists>(a, b) \<in> set (zip (da_analysis dim_col df) (pop_analysis dim_col df)).
          a1_DominantFSA a = z \<and> DA_Percentage a \<noteq> a2_Pop_Percentage b))"
proof (intro conjI impI)
  show "\<forall>(a, b) \<in> set (zip (da_analysis dim_col df) (pop_analysis dim_col df)).
       a1_DominantFSA a = a2_DominantFSA b \<and> a1_Quintile a = a2_Quintile b"
    using zip_analysis_rows(1) by fastforce
  show "length (da_analysis dim_col df) = length (pop_analysis dim_col df)"
    by (simp add: da_analysis_def pop_analysis_def Let_def)
next
  let ?Z = "zip (da_analysis dim_col df) (pop_analysis dim_col df)"
  assume "\<exists>(a1, b1) \<in> set ?Z. \<exists>(a2, b2) \<in> set ?Z.
          a1_DominantFSA a1 = z \<and> a1_DominantFSA a2 = z
          \<and> a2_Sum_of_Pop b1 * of_nat (DA_Count a2) \<noteq> a2_Sum_of_Pop b2 * of_nat (DA_Count a1)"
  then obtain a1 b1 a2 b2 where m1: "(a1, b1) \<in> set ?Z" and m2: "(a2, b2) \<in> set ?Z"
    and z1: "a1_DominantFSA a1 = z" and z2: "a1_DominantFSA a2 = z"
    and ne: "a2_Sum_of_Pop b1 * of_nat (DA_Count a2) \<noteq> a2_Sum_of_Pop b2 * of_nat (DA_Count a1)"
    by blast
  note r1 = zip_analysis_rows [OF m1] and r2 = zip_analysis_rows [OF m2]
  let ?n = "of_nat (group_size DominantFSA df z) :: rat"
  let ?t = "group_sum DominantFSA Sum_of_Pop df z"
  have n: "?n \<noteq> 0" using r1(2) unfolding z1 by simp
  show "\<exists>(a, b) \<in> set ?Z. a1_DominantFSA a = z \<and> DA_Percentage a \<noteq> a2_Pop_Percentage b"
  proof (rule ccontr)
    assume "\<not> (\<exists>(a, b) \<in> set ?Z. a1_DominantFSA a = z \<and> DA_Percentage a \<noteq> a2_Pop_Percentage b)"
    then have e1: "DA_Percentage a1 = a2_Pop_Percentage b1"
      and e2: "DA_Percentage a2 = a2_Pop_Percentage b2"
      using m1 m2 z1 z2 by blast+
    have "fmul (fdiv (Fin (of_nat (DA_Count a1))) (Fin ?n)) (Fin 100)
        = fmul (fdiv (Fin (a2_Sum_of_Pop b1)) (Fin ?t)) (Fin 100)"
      using e1 unfolding r1(3) r1(4) z1 .
    with n have c1: "of_nat (DA_Count a1) * ?t = a2_Sum_of_Pop b1 * ?n"
      using equal_percentages by blast
    have "fmul (fdiv (Fin (of_nat (DA_Count a2))) (Fin ?n)) (Fin 100)
        = fmul (fdiv (Fin (a2_Sum_of_Pop b2)) (Fin ?t)) (Fin 100)"
      using e2 unfolding r2(3) r2(4) z2 .
    with n have c2: "of_nat (DA_Count a2) * ?t = a2_Sum_of_Pop b2 * ?n"
      using equal_percentages by blast
    from n c1 c2 have "a2_Sum_of_Pop b1 * of_nat (DA_Count a2) = a2_Sum_of_Pop b2 * of_nat (DA_Count a1)"
      by (rule cross_product)
    with ne show False by contradiction
  qed
qed

theorem count_and_population_shares_differ_witness:
  "map (\<lambda>(a, b). (a1_DominantFSA a, a1_Quintile a, DA_Count a, a2_Sum_of_Pop b,
                    DA_Percentage a, a2_Pop_Percentage b))
      (zip (da_analysis households_dwellings_q_DA21 example_unequal_df)
           (pop_analysis households_dwellings_q_DA21 example_unequal_df))
     = [(''L1A'', 1, 1, 10, Fin 50, Fin 25), (''L1A'', 2, 1, 30, Fin 50, Fin 75)]
   \<and> (\<exists>(a, b) \<in> set (zip (da_analysis households_dwellings_q_DA21 example_unequal_df)
                           (pop_analysis households_dwellings_q_DA21 example_unequal_df)).
         a1_DominantFSA a = ''L1A'' \<and> DA_Percentage a \<noteq> a2_Pop_Percentage b)"
proof -
  let ?d = "households_dwellings_q_DA21 :: final_row \<Rightarrow> int option"
  let ?Z = "zip (da_analysis ?d example_unequal_df) (pop_analysis ?d example_unequal_df)"
  have v: "map (\<lambda>(a, b). (a1_DominantFSA a, a1_Quintile a, DA_Count a, a2_Sum_of_Pop b,
                    DA_Percentage a, a2_Pop_Percentage b)) ?Z
     = [(''L1A'', 1, 1, 10, Fin 50, Fin 25), (''L1A'', 2, 1, 30, Fin 50, Fin 75)]"
    by code_simp
  have h: "\<exists>(a1, b1) \<in> set ?Z. \<exists>(a2, b2) \<in> set ?Z.
          a1_DominantFSA a1 = ''L1A'' \<and> a1_DominantFSA a2 = ''L1A''
          \<and> a2_Sum_of_Pop b1 * of_nat (DA_Count a2) \<noteq> a2_Sum_of_Pop b2 * of_nat (DA_Count a1)"
    by code_simp
  have "\<exists>(a, b) \<in> set ?Z. a1_DominantFSA a = ''L1A'' \<and> DA_Percentage a \<noteq> a2_Pop_Percentage b"
    by (rule count_and_population_shares_differ [of ?d example_unequal_df "''L1A''",
          THEN conjunct2, THEN conjunct2, THEN mp, OF h])
  with v show ?thesis by (rule conjI)
qed

theorem count_and_population_shares_counterexample:
  "map Sum_of_Pop example_equal_means_df = [10, 30, 20, 20]
   \<and> map DominantFSA example_equal_means_df = [''L1A'', ''L1A'', ''L1A'', ''L1A'']
   \<and> map DA_Percentage (da_analysis households_dwellings_q_DA21 example_equal_means_df)
       = [Fin 50, Fin 50]
   \<and> map a2_Pop_Percentage (pop_analysis households_dwellings_q_DA21 example_equal_means_df)
       = [Fin 50, Fin 50]
   \<and> map DA_Proportion (da_analysis households_dwellings_q_DA21 example_equal_means_df)
       = [Fin (1 / 2), Fin (1 / 2)]"
  by code_simp

end
